theory Spec2Isabelle
  imports Complex_Main "HOL-Library.AList"
begin

section \<open>Numbers of the source\<close>

text \<open>
  The TypeScript sources compute on JavaScript numbers: IEEE 754 binary64 values. A
  \<open>number\<close> is a finite value, one of the two infinities, or \<open>NaN\<close>. The finite
  values are the reals \<open>m * 2^e\<close> with \<open>\<bar>m\<bar> < 2^53\<close> and \<open>-1074 \<le> e \<le> 971\<close>
  (\<open>is_double\<close>). The sign of a zero is not kept: no value computed here depends on
  it.
\<close>

datatype number = Fin real | PosInf | NegInf | NotANumber

definition is_double :: "real \<Rightarrow> bool" where
  "is_double x = (\<exists>m e :: int. x = real_of_int m * 2 powi e \<and> \<bar>m\<bar> < 2 ^ 53 \<and> - 1074 \<le> e \<and> e \<le> 971)"

text \<open>
  The exponent of the unit in the last place of the binade of \<open>x\<close>: 52 below the
  exponent of \<open>x\<close>, and \<open>-1074\<close> for the subnormal numbers.
\<close>

definition ulp_exp :: "real \<Rightarrow> int" where
  "ulp_exp x = max \<lfloor>log 2 \<bar>x\<bar>\<rfloor> (- 1022) - 52"

text \<open>The nearest integer, a tie going to the even one.\<close>

definition round_even :: "real \<Rightarrow> int" where
  "round_even y =
     (let f = \<lfloor>y\<rfloor>; d = y - real_of_int f
      in if d < 1 / 2 then f else if 1 / 2 < d then f + 1 else if even f then f else f + 1)"

text \<open>
  The rounding that every arithmetic operation applies to its exact result: to the
  nearest value of the format, ties to even, and to an infinity from \<open>2^1024\<close> on.
\<close>

definition rnd :: "real \<Rightarrow> number" where
  "rnd x =
     (if x = 0 then Fin 0
      else let u = 2 powi ulp_exp x;
               y = real_of_int (round_even (x / u)) * u
           in if 2 ^ 1024 \<le> y then PosInf else if y \<le> - (2 ^ 1024) then NegInf else Fin y)"

text \<open>
  A decimal literal of the source stands for the double nearest to it: \<open>lit (1 / 10)\<close>
  is the value of \<open>0.1\<close>.
\<close>

definition lit :: "real \<Rightarrow> number" where
  "lit x = rnd x"

text \<open>The comparisons \<open><=\<close> and \<open><\<close>; both are false when an operand is \<open>NaN\<close>.\<close>

fun dle :: "number \<Rightarrow> number \<Rightarrow> bool" where
  "dle NotANumber b = False"
| "dle a NotANumber = False"
| "dle NegInf b = True"
| "dle a PosInf = True"
| "dle (Fin a) (Fin b) = (a \<le> b)"
| "dle a b = False"

fun dlt :: "number \<Rightarrow> number \<Rightarrow> bool" where
  "dlt NotANumber b = False"
| "dlt a NotANumber = False"
| "dlt PosInf b = False"
| "dlt a NegInf = False"
| "dlt (Fin a) (Fin b) = (a < b)"
| "dlt a b = True"

definition dgt :: "number \<Rightarrow> number \<Rightarrow> bool" where
  "dgt a b = dlt b a"

definition dge :: "number \<Rightarrow> number \<Rightarrow> bool" where
  "dge a b = dle b a"

fun dneg :: "number \<Rightarrow> number" where
  "dneg (Fin a) = Fin (- a)"
| "dneg PosInf = NegInf"
| "dneg NegInf = PosInf"
| "dneg NotANumber = NotANumber"

fun dadd :: "number \<Rightarrow> number \<Rightarrow> number" where
  "dadd (Fin a) (Fin b) = rnd (a + b)"
| "dadd NotANumber b = NotANumber"
| "dadd a NotANumber = NotANumber"
| "dadd PosInf NegInf = NotANumber"
| "dadd NegInf PosInf = NotANumber"
| "dadd PosInf b = PosInf"
| "dadd NegInf b = NegInf"
| "dadd a PosInf = PosInf"
| "dadd a NegInf = NegInf"

definition dsub :: "number \<Rightarrow> number \<Rightarrow> number" where
  "dsub a b = dadd a (dneg b)"

fun dmul :: "number \<Rightarrow> number \<Rightarrow> number" where
  "dmul (Fin a) (Fin b) = rnd (a * b)"
| "dmul NotANumber b = NotANumber"
| "dmul a NotANumber = NotANumber"
| "dmul (Fin a) PosInf = (if a = 0 then NotANumber else if 0 < a then PosInf else NegInf)"
| "dmul (Fin a) NegInf = (if a = 0 then NotANumber else if 0 < a then NegInf else PosInf)"
| "dmul PosInf (Fin b) = (if b = 0 then NotANumber else if 0 < b then PosInf else NegInf)"
| "dmul NegInf (Fin b) = (if b = 0 then NotANumber else if 0 < b then NegInf else PosInf)"
| "dmul PosInf PosInf = PosInf"
| "dmul NegInf NegInf = PosInf"
| "dmul PosInf NegInf = NegInf"
| "dmul NegInf PosInf = NegInf"

text \<open>
  Division. A zero divisor is taken as the positive zero; no division of the sources
  modelled here has a divisor that can be a negative zero.
\<close>

fun ddiv :: "number \<Rightarrow> number \<Rightarrow> number" where
  "ddiv (Fin a) (Fin b) =
     (if b = 0 then (if a = 0 then NotANumber else if 0 < a then PosInf else NegInf)
      else rnd (a / b))"
| "ddiv NotANumber b = NotANumber"
| "ddiv a NotANumber = NotANumber"
| "ddiv (Fin a) b = Fin 0"
| "ddiv PosInf (Fin b) = (if 0 \<le> b then PosInf else NegInf)"
| "ddiv NegInf (Fin b) = (if 0 \<le> b then NegInf else PosInf)"
| "ddiv a b = NotANumber"

text \<open>
  \<open>Math.floor\<close>, \<open>Math.ceil\<close>, \<open>Math.abs\<close>, \<open>Math.max\<close> and \<open>Math.min\<close>; the floor
  and the ceiling of a double are doubles.
\<close>

fun dfloor :: "number \<Rightarrow> number" where
  "dfloor (Fin a) = Fin (real_of_int \<lfloor>a\<rfloor>)"
| "dfloor a = a"

fun dceil :: "number \<Rightarrow> number" where
  "dceil (Fin a) = Fin (real_of_int \<lceil>a\<rceil>)"
| "dceil a = a"

fun dabs :: "number \<Rightarrow> number" where
  "dabs (Fin a) = Fin \<bar>a\<bar>"
| "dabs NegInf = PosInf"
| "dabs a = a"

fun dmax :: "number \<Rightarrow> number \<Rightarrow> number" where
  "dmax NotANumber b = NotANumber"
| "dmax a NotANumber = NotANumber"
| "dmax a b = (if dle a b then b else a)"

fun dmin :: "number \<Rightarrow> number \<Rightarrow> number" where
  "dmin NotANumber b = NotANumber"
| "dmin a NotANumber = NotANumber"
| "dmin a b = (if dle a b then a else b)"

text \<open>
  \<open>Math.exp\<close>, \<open>Math.pow\<close> and \<open>Math.log\<close> are approximations that the platform
  chooses; they are parameters. (\<open>Math.pow(2, 52)\<close> and \<open>Math.pow(10, 9)\<close>, the two
  calls with constant arguments, are the exact powers.)
\<close>

record mathlib =
  mathExp :: "number \<Rightarrow> number"
  mathPow :: "number \<Rightarrow> number \<Rightarrow> number"
  mathLog :: "number \<Rightarrow> number"

section \<open>Strings and \<open>parseInt\<close>\<close>

text \<open>
  A string is a list of 8-bit code units. The result of \<open>parseInt\<close> is kept in a type
  of its own: the integer that the digits denote, or \<open>NaN\<close> when there is no digit.
\<close>

datatype jsnum = NaN | Num real

definition hexDigit :: "char \<Rightarrow> nat option" where
  "hexDigit c =
     (let n = (of_char c :: nat) in
      if 48 \<le> n \<and> n \<le> 57 then Some (n - 48)
      else if 97 \<le> n \<and> n \<le> 102 then Some (n - 87)
      else if 65 \<le> n \<and> n \<le> 70 then Some (n - 55)
      else None)"

definition isHex :: "char \<Rightarrow> bool" where
  "isHex c = (hexDigit c \<noteq> None)"

definition hexVal :: "string \<Rightarrow> nat" where
  "hexVal s = foldl (\<lambda>a c. 16 * a + (case hexDigit c of Some d \<Rightarrow> d | None \<Rightarrow> 0)) 0 s"

text \<open>
  The white space that \<open>parseInt\<close> skips, among the code units below 256: tab, line
  feed, vertical tab, form feed, carriage return, space and the no-break space.
\<close>

definition isWhite :: "char \<Rightarrow> bool" where
  "isWhite c = (of_char c \<in> {9, 10, 11, 12, 13, 32, 160 :: nat})"

text \<open>
  \<open>parseInt(s, 16)\<close>: leading white space is skipped, a sign is read, a prefix
  \<open>0x\<close> or \<open>0X\<close> is skipped, then the longest run of hexadecimal digits is the
  value; with no digit the result is \<open>NaN\<close>. The source calls it on at most 13
  characters, where the value is exact in a double.
\<close>

definition parseInt16 :: "string \<Rightarrow> jsnum" where
  "parseInt16 s =
     (let t = dropWhile isWhite s;
          neg = (take 1 t = ''-'');
          u = (if take 1 t = ''-'' \<or> take 1 t = ''+'' then drop 1 t else t);
          v = (if take 2 u = ''0x'' \<or> take 2 u = ''0X'' then drop 2 u else u);
          ds = takeWhile isHex v
      in if ds = [] then NaN
         else Num (if neg then - real (hexVal ds) else real (hexVal ds)))"

text \<open>The double that a result of \<open>parseInt\<close> is.\<close>

fun toNumber :: "jsnum \<Rightarrow> number" where
  "toNumber NaN = NotANumber"
| "toNumber (Num x) = rnd x"

section \<open>crash-math.ts\<close>

definition GROWTH_RATE :: real where
  "GROWTH_RATE = 6 / 100000"

definition ACCELERATION :: real where
  "ACCELERATION = 115 / 100"

definition getMultiplierAtTime :: "mathlib \<Rightarrow> number \<Rightarrow> number" where
  "getMultiplierAtTime M elapsedMs =
     (if dle elapsedMs (Fin 0) then Fin 1
      else let exponent = dmul (lit GROWTH_RATE) (mathPow M elapsedMs (lit ACCELERATION));
               multiplier = mathExp M exponent
           in ddiv (dfloor (dmul multiplier (Fin 100))) (Fin 100))"

definition getTimeForMultiplier :: "mathlib \<Rightarrow> number \<Rightarrow> number" where
  "getTimeForMultiplier M multiplier =
     (if dle multiplier (Fin 1) then Fin 0
      else let lnMultiplier = mathLog M multiplier;
               time = mathPow M (ddiv lnMultiplier (lit GROWTH_RATE)) (ddiv (Fin 1) (lit ACCELERATION))
           in dfloor time)"

definition calculatePayout :: "number \<Rightarrow> number \<Rightarrow> number" where
  "calculatePayout wager multiplier =
     ddiv (dfloor (dmul (dmul wager multiplier) (Fin 10000))) (Fin 10000)"

text \<open>
  \<open>getCrashPointFromHash(hash, houseEdge = 0.05)\<close>. The optional argument is an
  \<open>option\<close>; \<open>None\<close> is the call that leaves it out.
\<close>

definition getCrashPointFromHash :: "string \<Rightarrow> number option \<Rightarrow> number" where
  "getCrashPointFromHash hash houseEdgeArg =
     (let houseEdge = (case houseEdgeArg of None \<Rightarrow> lit (5 / 100) | Some e \<Rightarrow> e);
          hashHex = take 13 hash;
          hashInt = toNumber (parseInt16 hashHex);
          maxValue = Fin (2 ^ 52);
          instantCrash = dlt hashInt (dmul maxValue houseEdge)
      in if instantCrash then Fin 1
         else let adjustedHash =
                    ddiv (dsub hashInt (dmul maxValue houseEdge))
                         (dmul maxValue (dsub (Fin 1) houseEdge));
                  crashPoint = ddiv (Fin 1) (dsub (Fin 1) (dmul adjustedHash (lit (99 / 100))))
              in dmax (Fin 1) (ddiv (dfloor (dmul crashPoint (Fin 100))) (Fin 100)))"

text \<open>
  A 256-bit digest in hexadecimal: 64 hexadecimal digits.
\<close>

definition isHexDigest :: "string \<Rightarrow> bool" where
  "isHexDigest s = (length s = 64 \<and> list_all isHex s)"



section \<open>provably-fair.ts\<close>

text \<open>
  SHA-256 and HMAC-SHA256 come from the platform's \<open>crypto\<close> module, which is not part
  of the repository; both are parameters, each returning the digest in hexadecimal.
  \<open>hmacSha256hex K key message\<close> is
  \<open>crypto.createHmac("sha256", key).update(message).digest("hex")\<close>.
\<close>

record crypto =
  sha256hex :: "string \<Rightarrow> string"
  hmacSha256hex :: "string \<Rightarrow> string \<Rightarrow> string"

text \<open>
  The decimal text of an integer nonce, as a template literal prints it; that is all its
  digits for an integer below \<open>10^21\<close> in magnitude, which every nonce here is.
\<close>

fun natToString :: "nat \<Rightarrow> string" where
  "natToString n =
     (if n < 10 then [char_of (48 + n)]
      else natToString (n div 10) @ [char_of (48 + n mod 10)])"

declare natToString.simps [simp del]

definition numberToString :: "int \<Rightarrow> string" where
  "numberToString i = (if i < 0 then ''-'' @ natToString (nat (- i)) else natToString (nat i))"

definition hashSeed :: "crypto \<Rightarrow> string \<Rightarrow> string" where
  "hashSeed K seed = sha256hex K seed"

definition combineSeeds :: "crypto \<Rightarrow> string \<Rightarrow> string \<Rightarrow> int \<Rightarrow> string" where
  "combineSeeds K sSeed cSeed n = hmacSha256hex K sSeed (cSeed @ '':'' @ numberToString n)"

text \<open>\<open>calculateCrashPoint(serverSeed, clientSeed, nonce, houseEdge = 0.03)\<close>.\<close>

definition calculateCrashPoint ::
  "crypto \<Rightarrow> string \<Rightarrow> string \<Rightarrow> int \<Rightarrow> number option \<Rightarrow> number" where
  "calculateCrashPoint K sSeed cSeed n houseEdgeArg =
     (let houseEdge = (case houseEdgeArg of None \<Rightarrow> lit (3 / 100) | Some e \<Rightarrow> e);
          combinedHash = combineSeeds K sSeed cSeed n
      in getCrashPointFromHash combinedHash (Some houseEdge))"

datatype verify_error =
    SeedHashMismatch
  | CrashPointMismatch number number

record verify_result =
  valid :: bool
  error :: "verify_error option"
  calculatedCrashPoint :: "number option"

text \<open>
  \<open>verifyGame(serverSeed, serverSeedHash, clientSeed, nonce, claimedCrashPoint,
  houseEdge = 0.05)\<close>. The test is \<open>Math.abs(calculated - claimed) > tolerance\<close> with
  \<open>tolerance = 0.01\<close>: the difference is rounded, and the tolerance is the double of
  \<open>0.01\<close>.
\<close>

definition verifyGame ::
  "crypto \<Rightarrow> string \<Rightarrow> string \<Rightarrow> string \<Rightarrow> int \<Rightarrow> number \<Rightarrow> number option \<Rightarrow> verify_result" where
  "verifyGame K sSeed sSeedHash cSeed n claimedCrashPoint houseEdgeArg =
     (let houseEdge = (case houseEdgeArg of None \<Rightarrow> lit (5 / 100) | Some e \<Rightarrow> e);
          calculatedHash = hashSeed K sSeed
      in if calculatedHash \<noteq> sSeedHash
         then \<lparr>valid = False, error = Some SeedHashMismatch, calculatedCrashPoint = None\<rparr>
         else let calculated = calculateCrashPoint K sSeed cSeed n (Some houseEdge);
                  tolerance = lit (1 / 100)
              in if dgt (dabs (dsub calculated claimedCrashPoint)) tolerance
                 then \<lparr>valid = False,
                       error = Some (CrashPointMismatch claimedCrashPoint calculated),
                       calculatedCrashPoint = Some calculated\<rparr>
                 else \<lparr>valid = True, error = None, calculatedCrashPoint = Some calculated\<rparr>)"

text \<open>
  A stand-in for the two hash functions with fixed digests, for concrete runs.
\<close>

definition stub_crypto :: crypto where
  "stub_crypto =
     \<lparr>sha256hex = (\<lambda>seed. ''0000000000000000000000000000000000000000000000000000000000000000''),
      hmacSha256hex =
        (\<lambda>key message. ''8000000000000000000000000000000000000000000000000000000000000000'')\<rparr>"

record GameSession =
  serverSeed :: string
  serverSeedHash :: string
  clientSeed :: string
  nonce :: int

text \<open>
  \<open>createGameSession(existingServerSeed?, existingClientSeed?, nonce = 0)\<close>. The two
  random seeds that \<open>generateServerSeed()\<close> and \<open>generateClientSeed()\<close> would draw are
  inputs; \<open>a || b\<close> takes \<open>b\<close> when \<open>a\<close> is missing or the empty string.
\<close>

definition createGameSession ::
  "crypto \<Rightarrow> string \<Rightarrow> string \<Rightarrow> string option \<Rightarrow> string option \<Rightarrow> int option \<Rightarrow> GameSession" where
  "createGameSession K freshServerSeed freshClientSeed existingServerSeed existingClientSeed nonceArg =
     (let sSeed = (case existingServerSeed of None \<Rightarrow> freshServerSeed
                   | Some s \<Rightarrow> if s = [] then freshServerSeed else s);
          cSeed = (case existingClientSeed of None \<Rightarrow> freshClientSeed
                   | Some s \<Rightarrow> if s = [] then freshClientSeed else s)
      in \<lparr>serverSeed = sSeed, serverSeedHash = hashSeed K sSeed, clientSeed = cSeed,
          nonce = (case nonceArg of None \<Rightarrow> 0 | Some n \<Rightarrow> n)\<rparr>)"

section \<open>app/api/games/crash/verify/route.ts\<close>

text \<open>
  A value of a field of the request body, as \<open>request.json()\<close> delivers it: \<open>null\<close>, a
  boolean, a number, a string, or an array or object (\<open>JOther\<close>).
\<close>

datatype json = JNull | JBool bool | JNumber number | JString string | JOther

text \<open>
  The body of a request: not JSON at all, the JSON value \<open>null\<close>, another JSON value
  that is not an object (it has none of the fields), or an object. Of an object the
  handler can see six fields; a field that is absent (\<open>undefined\<close>) is \<open>None\<close>. The
  handler destructures five of them and never names \<open>houseEdge\<close>.
\<close>

record verify_body =
  body_serverSeed :: "json option"
  body_serverSeedHash :: "json option"
  body_clientSeed :: "json option"
  body_nonce :: "json option"
  body_crashPoint :: "json option"
  body_houseEdge :: "json option"

datatype request_body = NotJson | NullBody | NonObject | ObjectBody verify_body

datatype response =
    Json200 verify_result
  | Json400 string
  | Json500 string

text \<open>\<open>!v\<close>: the values that JavaScript takes for false.\<close>

fun falsy :: "json option \<Rightarrow> bool" where
  "falsy None = True"
| "falsy (Some JNull) = True"
| "falsy (Some (JBool b)) = (\<not> b)"
| "falsy (Some (JNumber x)) = (x = Fin 0 \<or> x = NotANumber)"
| "falsy (Some (JString s)) = (s = [])"
| "falsy (Some JOther) = False"

definition missingFields :: "verify_body \<Rightarrow> bool" where
  "missingFields body =
     (falsy (body_serverSeed body) \<or> falsy (body_serverSeedHash body) \<or>
      falsy (body_clientSeed body) \<or> body_nonce body = None \<or>
      falsy (body_crashPoint body))"

text \<open>
  \<open>verifyGame\<close> is declared on strings and numbers, and modelled on them, with a nonce
  that is an integer below \<open>10^21\<close> in magnitude. The fields of a body that has these
  types:
\<close>

fun asString :: "json option \<Rightarrow> string option" where
  "asString (Some (JString s)) = Some s"
| "asString v = None"

fun asNonce :: "json option \<Rightarrow> int option" where
  "asNonce (Some (JNumber (Fin x))) =
     (if real_of_int \<lfloor>x\<rfloor> = x \<and> \<bar>x\<bar> < 10 ^ 21 then Some \<lfloor>x\<rfloor> else None)"
| "asNonce v = None"

fun asNumber :: "json option \<Rightarrow> number option" where
  "asNumber (Some (JNumber x)) = Some x"
| "asNumber v = None"

text \<open>
  \<open>POST\<close>. A body that is not JSON makes \<open>request.json()\<close> throw, the body \<open>null\<close>
  makes the destructuring throw; both end in the \<open>catch\<close> with status 500. A body whose
  fields pass the guard with other types than the declared ones reaches \<open>verifyGame\<close>
  all the same; what the coercions of JavaScript and the platform's \<open>crypto\<close> make of
  the five values (a \<open>TypeError\<close> and status 500 for a seed that is not a string, a
  comparison of coerced values otherwise) is the parameter \<open>illTyped\<close>.
\<close>

type_synonym fields = "json option \<times> json option \<times> json option \<times> json option \<times> json option"

definition POST :: "crypto \<Rightarrow> (fields \<Rightarrow> response) \<Rightarrow> request_body \<Rightarrow> response" where
  "POST K illTyped request =
     (case request of
        NotJson \<Rightarrow> Json500 ''Failed to verify game''
      | NullBody \<Rightarrow> Json500 ''Failed to verify game''
      | NonObject \<Rightarrow> Json400 ''Missing required fields''
      | ObjectBody body \<Rightarrow>
          if missingFields body then Json400 ''Missing required fields''
          else case (asString (body_serverSeed body), asString (body_serverSeedHash body),
                     asString (body_clientSeed body), asNonce (body_nonce body),
                     asNumber (body_crashPoint body)) of
                 (Some sSeed, Some sSeedHash, Some cSeed, Some n, Some cp) \<Rightarrow>
                   Json200 (verifyGame K sSeed sSeedHash cSeed n cp None)
               | _ \<Rightarrow> illTyped (body_serverSeed body, body_serverSeedHash body,
                                 body_clientSeed body, body_nonce body, body_crashPoint body))"

text \<open>A stand-in for the parameter, for concrete runs: every such call throws.\<close>

definition throwing :: "fields \<Rightarrow> response" where
  "throwing v = Json500 ''Failed to verify game''"

section \<open>Server state\<close>

text \<open>
  The rows of \<open>custodialWallet\<close> that the services read and write. A user has one
  wallet (\<open>findUnique({ where: { userId } })\<close>); the store is keyed by the user id, and
  a wallet's id is identified with its key. The amounts are columns of double precision:
  the services read them as JavaScript numbers, and \<open>{ increment: amount }\<close> adds in
  double precision.
\<close>

record wallet =
  balance :: number
  pendingBalance :: number
  lockedBalance :: number
  lowestBalance :: number
  highestBalance :: number
  totalWithdrawn :: number

datatype withdrawal_status = processing | confirmed | failed

record pendingWithdrawal =
  pw_walletId :: string
  pw_amount :: number
  pw_destinationAddress :: string
  pw_status :: withdrawal_status
  pw_txSignature :: "string option"
  pw_errorMessage :: "string option"

datatype txn_type = DEPOSIT | WITHDRAWAL

datatype txn_status = PENDING | CONFIRMED | FAILED

record txn =
  tx_userId :: string
  tx_type :: txn_type
  tx_status :: txn_status
  tx_amount :: number
  tx_balanceBefore :: number
  tx_balanceAfter :: number
  tx_withdrawalId :: "string option"
  tx_txSignature :: "string option"

text \<open>
  The rows of \<open>gameRound\<close> with the \<open>crashPoint\<close> of their \<open>crashData\<close>, and the
  rows of \<open>userStats\<close>, keyed by the user id. Columns that no function modelled here
  reads are left out.
\<close>

record gameRound =
  gr_gameType :: string
  gr_status :: string
  gr_userId :: string
  gr_wagerAmount :: number
  gr_serverSeedHash :: string
  gr_crashPoint :: "number option"

record userStats =
  totalGamesPlayed :: nat
  totalGamesLost :: nat
  totalWagered :: number
  totalLost :: number
  netProfit :: number

record PlayerBet =
  oderwager :: number
  odercashedOutAt :: "number option"
  oderpayout :: "number option"

datatype crash_status = waiting | running | crashed

text \<open>
  \<open>ActiveGame\<close> of crash-service.ts. \<open>players\<close> is a JavaScript \<open>Map\<close>: an
  association list in insertion order.
\<close>

record CrashGame =
  session :: GameSession
  crashPoint :: number
  startTime :: "number option"
  players :: "(string \<times> PlayerBet) list"
  status :: crash_status

datatype shootout_status = sg_waiting | countdown | spinning | completed

text \<open>\<open>ActiveGame\<close> of shootout-service.ts.\<close>

record ShootoutGame =
  player1Id :: string
  player2Id :: "string option"
  player1Wallet :: string
  player2Wallet :: "string option"
  wagerAmount :: number
  sg_session :: GameSession
  winnerId :: "string option"
  sg_status :: shootout_status

text \<open>
  What the services and routes hand to \<open>broadcastGameUpdate\<close>,
  \<open>broadcastActivityUpdate\<close> and \<open>broadcastBalanceUpdate\<close>, one constructor for each
  object literal in the source, with the fields in the order they are written there.
  \<open>route_crash_end\<close> is the \<open>crash_end\<close> message of the route
  \<open>app/api/games/crash/[gameId]\<close>: the id it was called with and the \<open>crashPoint\<close> of
  that row, if the row has one.
\<close>

datatype event =
    crash_start string number "number option"
  | crash_tick string number number number
  | crash_cashout string string number number
  | crash_end string number string string string int
  | route_crash_end string "number option"
  | big_win string string number number
  | shootout_spinning string real
  | shootout_result string "string option" "string option" number string string string int
  | balanceUpdate string number number "string option"

text \<open>
  The whole mutable state: the database tables, the in-memory maps of the three services
  and the broadcasts sent so far (oldest first).
\<close>

record server =
  wallets :: "string \<rightharpoonup> wallet"
  snapshots :: "(string \<times> number \<times> string) list"
  withdrawals :: "string \<rightharpoonup> pendingWithdrawal"
  transactions :: "txn list"
  withdrawalCooldowns :: "string \<rightharpoonup> number"
  gameRounds :: "string \<rightharpoonup> gameRound"
  userStatsRows :: "string \<rightharpoonup> userStats"
  crashGames :: "string \<rightharpoonup> CrashGame"
  shootoutGames :: "string \<rightharpoonup> ShootoutGame"
  broadcasts :: "event list"

definition broadcast :: "event \<Rightarrow> server \<Rightarrow> server" where
  "broadcast e s = s\<lparr>broadcasts := broadcasts s @ [e]\<rparr>"

section \<open>db/services/balance.ts\<close>

datatype ledger_error = WalletNotFound | InsufficientBalance number

definition withdrawable :: "wallet \<Rightarrow> number" where
  "withdrawable w = dsub (dsub (balance w) (pendingBalance w)) (lockedBalance w)"

text \<open>
  Each operation is one database transaction: a function from the state to a result and
  the state after it. The background token transfer that \<open>placeBet\<close> and
  \<open>creditWinnings\<close> start only logs; it changes nothing here.
\<close>

definition BalanceService_placeBet ::
  "string \<Rightarrow> number \<Rightarrow> server \<Rightarrow> (ledger_error + unit) \<times> server" where
  "BalanceService_placeBet userId amount s =
     (case wallets s userId of
        None \<Rightarrow> (Inl WalletNotFound, s)
      | Some w \<Rightarrow>
          (let availableBalance = dsub (dsub (balance w) (pendingBalance w)) (lockedBalance w)
           in if dgt amount availableBalance then (Inl (InsufficientBalance availableBalance), s)
              else (Inr (),
                    s\<lparr>wallets := (wallets s)(userId \<mapsto>
                         w\<lparr>pendingBalance := dadd (pendingBalance w) amount\<rparr>)\<rparr>)))"

definition unlockFromGame ::
  "string \<Rightarrow> number \<Rightarrow> server \<Rightarrow> (ledger_error + unit) \<times> server" where
  "unlockFromGame userId amount s =
     (case wallets s userId of
        None \<Rightarrow> (Inl WalletNotFound, s)
      | Some w \<Rightarrow>
          (let newPendingBalance = dmax (Fin 0) (dsub (pendingBalance w) amount)
           in (Inr (),
               s\<lparr>wallets := (wallets s)(userId \<mapsto>
                    w\<lparr>pendingBalance := newPendingBalance\<rparr>)\<rparr>)))"

definition deductLoss ::
  "string \<Rightarrow> number \<Rightarrow> server \<Rightarrow> (ledger_error + number) \<times> server" where
  "deductLoss userId amount s =
     (case wallets s userId of
        None \<Rightarrow> (Inl WalletNotFound, s)
      | Some w \<Rightarrow>
          (let newBalance = dsub (balance w) amount;
               newPendingBalance = dmax (Fin 0) (dsub (pendingBalance w) amount)
           in (Inr newBalance,
               s\<lparr>wallets := (wallets s)(userId \<mapsto>
                    w\<lparr>balance := newBalance, pendingBalance := newPendingBalance,
                      lowestBalance := dmin (lowestBalance w) newBalance\<rparr>),
                 snapshots := snapshots s @ [(userId, newBalance, ''game_loss'')]\<rparr>)))"

definition creditWinnings ::
  "string \<Rightarrow> number \<Rightarrow> number \<Rightarrow> server \<Rightarrow> (ledger_error + number) \<times> server" where
  "creditWinnings userId wagerAmt winnings s =
     (case wallets s userId of
        None \<Rightarrow> (Inl WalletNotFound, s)
      | Some w \<Rightarrow>
          (let profit = dsub winnings wagerAmt;
               newBalance = dadd (balance w) profit;
               newPendingBalance = dmax (Fin 0) (dsub (pendingBalance w) wagerAmt)
           in (Inr newBalance,
               s\<lparr>wallets := (wallets s)(userId \<mapsto>
                    w\<lparr>balance := newBalance, pendingBalance := newPendingBalance,
                      highestBalance := dmax (highestBalance w) newBalance\<rparr>),
                 snapshots := snapshots s @ [(userId, newBalance, ''game_win'')]\<rparr>)))"

text \<open>A call of one of the four operations on an account, and a run of such calls.\<close>

datatype ledger_op =
    PlaceBet number
  | UnlockFromGame number
  | DeductLoss number
  | CreditWinnings number number

fun ledger_step :: "string \<Rightarrow> ledger_op \<Rightarrow> server \<Rightarrow> server" where
  "ledger_step u (PlaceBet a) s = snd (BalanceService_placeBet u a s)"
| "ledger_step u (UnlockFromGame a) s = snd (unlockFromGame u a s)"
| "ledger_step u (DeductLoss a) s = snd (deductLoss u a s)"
| "ledger_step u (CreditWinnings wg wn) s = snd (creditWinnings u wg wn s)"

fun ledger_rejected :: "string \<Rightarrow> ledger_op \<Rightarrow> server \<Rightarrow> bool" where
  "ledger_rejected u (PlaceBet a) s = isl (fst (BalanceService_placeBet u a s))"
| "ledger_rejected u (UnlockFromGame a) s = isl (fst (unlockFromGame u a s))"
| "ledger_rejected u (DeductLoss a) s = isl (fst (deductLoss u a s))"
| "ledger_rejected u (CreditWinnings wg wn) s = isl (fst (creditWinnings u wg wn s))"

fun ledger_run :: "string \<Rightarrow> ledger_op list \<Rightarrow> server \<Rightarrow> server" where
  "ledger_run u [] s = s"
| "ledger_run u (x # xs) s = ledger_run u xs (ledger_step u x s)"

text \<open>
  The calls under which the ledger keeps its balance: amounts are not negative, and a
  settlement (\<open>deductLoss\<close>, \<open>creditWinnings\<close>) settles a wager that is locked in
  \<open>pendingBalance\<close> at that moment.
\<close>

fun settles_locked :: "ledger_op \<Rightarrow> wallet \<Rightarrow> bool" where
  "settles_locked (PlaceBet a) w = dle (Fin 0) a"
| "settles_locked (UnlockFromGame a) w = dle (Fin 0) a"
| "settles_locked (DeductLoss a) w = (dle (Fin 0) a \<and> dle a (pendingBalance w))"
| "settles_locked (CreditWinnings wg wn) w =
     (dle (Fin 0) wg \<and> dle wg (pendingBalance w) \<and> dle (Fin 0) wn)"

text \<open>
  Amounts on which the ledger's sums and differences are exact: the whole multiples of a
  unit \<open>2^j\<close>, up to \<open>2^50\<close> units.
\<close>

fun on_grid :: "int \<Rightarrow> number \<Rightarrow> bool" where
  "on_grid j (Fin r) =
     (real_of_int \<lfloor>r / 2 powi j\<rfloor> = r / 2 powi j \<and> \<bar>r\<bar> \<le> 2 ^ 50 * 2 powi j)"
| "on_grid j x = False"

fun op_on_grid :: "int \<Rightarrow> ledger_op \<Rightarrow> bool" where
  "op_on_grid j (PlaceBet a) = on_grid j a"
| "op_on_grid j (UnlockFromGame a) = on_grid j a"
| "op_on_grid j (DeductLoss a) = on_grid j a"
| "op_on_grid j (CreditWinnings wg wn) = (on_grid j wg \<and> on_grid j wn)"

definition wallet_on_grid :: "int \<Rightarrow> string \<Rightarrow> server \<Rightarrow> bool" where
  "wallet_on_grid j u s =
     (case wallets s u of
        None \<Rightarrow> False
      | Some w \<Rightarrow> on_grid j (balance w) \<and> on_grid j (pendingBalance w) \<and>
                  on_grid j (lockedBalance w))"

text \<open>
  A run of calls on the account \<open>u\<close> in which every amount and every balance that
  occurs is on the grid and every settlement settles a locked wager.
\<close>

fun exact_run :: "int \<Rightarrow> string \<Rightarrow> ledger_op list \<Rightarrow> server \<Rightarrow> bool" where
  "exact_run j u [] s = wallet_on_grid j u s"
| "exact_run j u (x # xs) s =
     (wallet_on_grid j u s \<and> op_on_grid j x \<and>
      (case wallets s u of None \<Rightarrow> False | Some w \<Rightarrow> settles_locked x w) \<and>
      exact_run j u xs (ledger_step u x s))"

definition ledger_sound :: "string \<Rightarrow> server \<Rightarrow> bool" where
  "ledger_sound u s =
     (case wallets s u of
        None \<Rightarrow> False
      | Some w \<Rightarrow> dle (Fin 0) (withdrawable w) \<and> dle (Fin 0) (pendingBalance w))"

text \<open>A state holding one wallet and nothing else, for concrete runs.\<close>

definition single_account :: "string \<Rightarrow> number \<Rightarrow> number \<Rightarrow> number \<Rightarrow> server" where
  "single_account u b p l =
     \<lparr>wallets = [u \<mapsto> \<lparr>balance = b, pendingBalance = p, lockedBalance = l,
                         lowestBalance = b, highestBalance = b, totalWithdrawn = Fin 0\<rparr>],
      snapshots = [], withdrawals = Map.empty, transactions = [],
      withdrawalCooldowns = Map.empty, gameRounds = Map.empty, userStatsRows = Map.empty,
      crashGames = Map.empty, shootoutGames = Map.empty, broadcasts = []\<rparr>"

definition single_wallet :: "string \<Rightarrow> real \<Rightarrow> real \<Rightarrow> real \<Rightarrow> server" where
  "single_wallet u b p l = single_account u (Fin b) (Fin p) (Fin l)"

section \<open>db/services/deposit.ts\<close>

definition MAX_DECIMALS :: nat where
  "MAX_DECIMALS = 9"

definition MIN_AMOUNT :: real where
  "MIN_AMOUNT = 1 / 10 ^ 7"

definition MAX_AMOUNT :: real where
  "MAX_AMOUNT = 10 ^ 9"

definition WITHDRAWAL_COOLDOWN_MS :: real where
  "WITHDRAWAL_COOLDOWN_MS = 60 * 1000"

datatype amount_error = InvalidType | NotFinite | BelowMinimum | AboveMaximum | TooManyDecimals

text \<open>
  \<open>validateAmount\<close>. The number of decimal places is read off \<open>amount.toString()\<close>,
  the platform's printing of a double; it is the parameter \<open>decimalPlaces\<close>.
\<close>

definition validateAmount :: "(number \<Rightarrow> nat) \<Rightarrow> number \<Rightarrow> amount_error option" where
  "validateAmount decimalPlaces amount =
     (if amount = NotANumber then Some InvalidType
      else if amount = PosInf \<or> amount = NegInf then Some NotFinite
      else if dlt amount (lit MIN_AMOUNT) then Some BelowMinimum
      else if dgt amount (Fin MAX_AMOUNT) then Some AboveMaximum
      else if decimalPlaces amount > MAX_DECIMALS then Some TooManyDecimals
      else None)"

text \<open>
  A stand-in for the printing: every amount is taken to print with \<open>k\<close> decimal
  places.
\<close>

definition fixedDecimals :: "nat \<Rightarrow> number \<Rightarrow> nat" where
  "fixedDecimals k amount = k"

text \<open>
  \<open>sanitizeAmount\<close>: \<open>Math.floor(amount * Math.pow(10, 9)) / Math.pow(10, 9)\<close>, the
  product and the quotient rounded.
\<close>

definition sanitizeAmount :: "number \<Rightarrow> number" where
  "sanitizeAmount amount =
     ddiv (dfloor (dmul amount (Fin (10 ^ MAX_DECIMALS)))) (Fin (10 ^ MAX_DECIMALS))"

text \<open>
  \<open>checkWithdrawalRateLimit\<close>: \<open>Some waitSeconds\<close> when the request is refused,
  \<open>None\<close> when it is allowed. \<open>now\<close> is \<open>Date.now()\<close>. The timer that deletes a
  user's entry after two minutes is not modelled: an entry that old allows the request
  as well.
\<close>

definition checkWithdrawalRateLimit :: "string \<Rightarrow> number \<Rightarrow> server \<Rightarrow> number option" where
  "checkWithdrawalRateLimit userId now s =
     (case withdrawalCooldowns s userId of
        None \<Rightarrow> None
      | Some lastWithdrawal \<Rightarrow>
          if lastWithdrawal \<noteq> Fin 0 \<and> lastWithdrawal \<noteq> NotANumber \<and>
             dlt (dsub now lastWithdrawal) (Fin WITHDRAWAL_COOLDOWN_MS)
          then Some (dceil (ddiv (dsub (Fin WITHDRAWAL_COOLDOWN_MS) (dsub now lastWithdrawal))
                              (Fin 1000)))
          else None)"

definition setWithdrawalTimestamp :: "string \<Rightarrow> number \<Rightarrow> server \<Rightarrow> server" where
  "setWithdrawalTimestamp userId now s =
     s\<lparr>withdrawalCooldowns := (withdrawalCooldowns s)(userId \<mapsto> now)\<rparr>"

datatype withdraw_error =
    RateLimited number
  | InvalidAmount amount_error
  | InvalidDestination
  | WalletMissing
  | Insufficient number
  | ThrownWalletNotFound
  | ThrownInsufficient number

text \<open>The arguments with which the background task is started.\<close>

record withdrawal_job =
  job_withdrawalId :: string
  job_userId :: string
  job_walletId :: string
  job_amount :: number
  job_destinationAddress :: string
  job_newBalance :: number

text \<open>
  \<open>requestWithdrawal\<close>. \<open>freshId\<close> is the id the database gives the new
  \<open>pendingWithdrawal\<close> row. The two \<open>throw\<close>s inside the transaction roll it back and
  leave the function as errors; the rate-limit timestamp is already set by then. On
  success the result is the job handed to \<open>runInBackground\<close>.
\<close>

definition requestWithdrawal ::
  "(number \<Rightarrow> nat) \<Rightarrow> string \<Rightarrow> number \<Rightarrow> string \<Rightarrow> number \<Rightarrow> string \<Rightarrow> server
     \<Rightarrow> (withdraw_error + withdrawal_job) \<times> server" where
  "requestWithdrawal decimalPlaces userId amount destinationAddress now freshId s =
     (case checkWithdrawalRateLimit userId now s of
        Some waitSeconds \<Rightarrow> (Inl (RateLimited waitSeconds), s)
      | None \<Rightarrow>
     (case validateAmount decimalPlaces amount of
        Some e \<Rightarrow> (Inl (InvalidAmount e), s)
      | None \<Rightarrow>
     (let sanitizedAmount = sanitizeAmount amount
      in if destinationAddress = [] \<or> length destinationAddress < 32 \<or>
            length destinationAddress > 44
         then (Inl InvalidDestination, s)
         else
     (case wallets s userId of
        None \<Rightarrow> (Inl WalletMissing, s)
      | Some w \<Rightarrow>
     (let withdrawableBalance =
            sanitizeAmount (dsub (dsub (balance w) (pendingBalance w)) (lockedBalance w))
      in if dgt sanitizedAmount withdrawableBalance then (Inl (Insufficient withdrawableBalance), s)
         else
     (let s1 = setWithdrawalTimestamp userId now s
      in case wallets s1 userId of
           None \<Rightarrow> (Inl ThrownWalletNotFound, s1)
         | Some currentWallet \<Rightarrow>
     (let currentWithdrawable =
            sanitizeAmount (dsub (dsub (balance currentWallet) (pendingBalance currentWallet))
                              (lockedBalance currentWallet))
      in if dgt sanitizedAmount currentWithdrawable
         then (Inl (ThrownInsufficient currentWithdrawable), s1)
         else
     (let newBalance = sanitizeAmount (dsub (balance currentWallet) sanitizedAmount);
          s2 = s1\<lparr>wallets := (wallets s1)(userId \<mapsto>
                     currentWallet\<lparr>balance := newBalance,
                       totalWithdrawn := dadd (totalWithdrawn currentWallet) sanitizedAmount,
                       lowestBalance := dmin (lowestBalance currentWallet) newBalance\<rparr>),
                   withdrawals := (withdrawals s1)(freshId \<mapsto>
                     \<lparr>pw_walletId = userId, pw_amount = sanitizedAmount,
                      pw_destinationAddress = destinationAddress, pw_status = processing,
                      pw_txSignature = None, pw_errorMessage = None\<rparr>),
                   snapshots := snapshots s1 @ [(userId, newBalance, ''withdraw'')],
                   transactions := transactions s1 @
                     [\<lparr>tx_userId = userId, tx_type = WITHDRAWAL, tx_status = PENDING,
                       tx_amount = sanitizedAmount, tx_balanceBefore = balance currentWallet,
                       tx_balanceAfter = newBalance, tx_withdrawalId = Some freshId,
                       tx_txSignature = None\<rparr>]\<rparr>;
          s3 = broadcast (balanceUpdate userId newBalance (dneg sanitizedAmount) None) s2
      in (Inr \<lparr>job_withdrawalId = freshId, job_userId = userId, job_walletId = userId,
               job_amount = sanitizedAmount, job_destinationAddress = destinationAddress,
               job_newBalance = newBalance\<rparr>, s3)))))))))"

text \<open>What \<open>SolanaService.transferFromGameMaster\<close> did: a signature, or an exception.\<close>

datatype transfer_outcome = TransferOk string | TransferFailed string

definition settleTransactions :: "string \<Rightarrow> txn_status \<Rightarrow> string option \<Rightarrow> txn list \<Rightarrow> txn list" where
  "settleTransactions userId st sig ts =
     map (\<lambda>t. if tx_userId t = userId \<and> tx_type t = WITHDRAWAL \<and> tx_status t = PENDING
                then (case sig of None \<Rightarrow> t\<lparr>tx_status := st\<rparr>
                      | Some g \<Rightarrow> t\<lparr>tx_status := st, tx_txSignature := Some g\<rparr>)
                else t) ts"

text \<open>
  \<open>processWithdrawalBackground\<close>. When the transfer fails, the \<open>catch\<close> block runs one
  transaction: credit the amount back, mark the withdrawal failed, mark the user's
  pending withdrawal transactions failed. An \<open>update\<close> of a row that does not exist
  throws, which rolls the transaction back.
\<close>

definition processWithdrawalBackground :: "withdrawal_job \<Rightarrow> transfer_outcome \<Rightarrow> server \<Rightarrow> server" where
  "processWithdrawalBackground job outcome s =
     (let refund =
        (case (wallets s (job_walletId job), withdrawals s (job_withdrawalId job)) of
           (Some w, Some pw) \<Rightarrow>
             (\<lambda>msg. broadcast
                (balanceUpdate (job_userId job) (dadd (job_newBalance job) (job_amount job))
                   (job_amount job) (Some ''refunded''))
                (s\<lparr>wallets := (wallets s)(job_walletId job \<mapsto>
                       w\<lparr>balance := dadd (balance w) (job_amount job),
                         totalWithdrawn := dsub (totalWithdrawn w) (job_amount job)\<rparr>),
                   withdrawals := (withdrawals s)(job_withdrawalId job \<mapsto>
                       pw\<lparr>pw_status := failed, pw_errorMessage := Some msg\<rparr>),
                   transactions := settleTransactions (job_userId job) FAILED None (transactions s)\<rparr>))
         | _ \<Rightarrow> (\<lambda>msg. s))
      in case outcome of
           TransferFailed msg \<Rightarrow> refund msg
         | TransferOk txSignature \<Rightarrow>
             (case withdrawals s (job_withdrawalId job) of
                None \<Rightarrow> refund ''Record to update not found''
              | Some pw \<Rightarrow>
                  broadcast (balanceUpdate (job_userId job) (job_newBalance job) (Fin 0) (Some ''confirmed''))
                    (s\<lparr>withdrawals := (withdrawals s)(job_withdrawalId job \<mapsto>
                          pw\<lparr>pw_status := confirmed, pw_txSignature := Some txSignature\<rparr>),
                       transactions := settleTransactions (job_userId job) CONFIRMED
                          (Some txSignature) (transactions s)\<rparr>)))"

text \<open>
  A run for a concrete account: the user holds \<open>0.3\<close> and asks to withdraw \<open>0.1\<close>
  at time 1000; the request is accepted, and the transfer fails.
\<close>

definition failed_withdrawal :: server where
  "failed_withdrawal =
     (case requestWithdrawal (fixedDecimals 1) ''u'' (lit (1 / 10))
             ''0123456789abcdef0123456789abcdef'' (Fin 1000) ''w1''
             (single_account ''u'' (lit (3 / 10)) (Fin 0) (Fin 0)) of
        (Inl e, s1) \<Rightarrow> s1
      | (Inr job, s1) \<Rightarrow> processWithdrawalBackground job (TransferFailed ''transfer failed'') s1)"

section \<open>crash-service.ts\<close>

text \<open>
  The service keeps its rounds in the map \<open>activeGames\<close> (\<open>crashGames\<close> here). Its
  timers are calls that the environment makes later: \<open>startGame\<close> after the betting
  window, \<open>crashGame\<close> at the scheduled crash time, the callback of
  \<open>startSyncBroadcasts\<close> every 250 ms, and the deletion of the round 10 s after the
  crash. \<open>Date.now()\<close> is an argument of the call that reads it.
\<close>

definition HOUSE_EDGE :: real where
  "HOUSE_EDGE = 5 / 100"

datatype crash_error =
    GameNotFound
  | GameAlreadyStarted
  | AlreadyPlacedBet
  | LedgerError ledger_error
  | GameNotRunning
  | NotInGame
  | AlreadyCashedOut
  | GameAlreadyCrashed

text \<open>\<open>gameRound.updateMany\<close>: the rows that match get the new status.\<close>

definition updateMany :: "(gameRound \<Rightarrow> bool) \<Rightarrow> string \<Rightarrow> server \<Rightarrow> server" where
  "updateMany matches st s =
     s\<lparr>gameRounds := (\<lambda>id. map_option (\<lambda>r. if matches r then r\<lparr>gr_status := st\<rparr> else r)
                              (gameRounds s id))\<rparr>"

text \<open>
  \<open>createGame\<close>: \<open>gameId\<close> is the id the database gives the new round, the two seeds
  are the random ones of \<open>createGameSession()\<close>. The caller receives the hash of the
  server seed.
\<close>

definition createGame :: "crypto \<Rightarrow> string \<Rightarrow> string \<Rightarrow> string \<Rightarrow> server \<Rightarrow> string \<times> server" where
  "createGame K gameId freshServerSeed freshClientSeed s =
     (let sess = createGameSession K freshServerSeed freshClientSeed None None None;
          cp = calculateCrashPoint K (serverSeed sess) (clientSeed sess) (nonce sess)
                 (Some (lit HOUSE_EDGE))
      in (serverSeedHash sess,
          s\<lparr>gameRounds := (gameRounds s)(gameId \<mapsto>
               \<lparr>gr_gameType = ''CRASH'', gr_status = ''WAITING'', gr_userId = ''system'',
                gr_wagerAmount = Fin 0, gr_serverSeedHash = serverSeedHash sess,
                gr_crashPoint = Some cp\<rparr>),
            crashGames := (crashGames s)(gameId \<mapsto>
               \<lparr>session = sess, crashPoint = cp, startTime = None, players = [],
                status = waiting\<rparr>)\<rparr>))"

text \<open>
  \<open>placeBet\<close>: \<open>rowId\<close> is the id the database gives the player's own
  \<open>gameRound\<close> row, which is created with the crash point of the round.
\<close>

definition CrashGameService_placeBet ::
  "string \<Rightarrow> string \<Rightarrow> number \<Rightarrow> string \<Rightarrow> server \<Rightarrow> (crash_error + unit) \<times> server" where
  "CrashGameService_placeBet gameId oderId wager rowId s =
     (case crashGames s gameId of
        None \<Rightarrow> (Inl GameNotFound, s)
      | Some game \<Rightarrow>
          if status game \<noteq> waiting then (Inl GameAlreadyStarted, s)
          else if map_of (players game) oderId \<noteq> None then (Inl AlreadyPlacedBet, s)
          else (case BalanceService_placeBet oderId wager s of
                  (Inl e, s1) \<Rightarrow> (Inl (LedgerError e), s1)
                | (Inr r, s1) \<Rightarrow>
                    (Inr (),
                     s1\<lparr>crashGames := (crashGames s1)(gameId \<mapsto>
                          game\<lparr>players := AList.update oderId
                                 \<lparr>oderwager = wager, odercashedOutAt = None, oderpayout = None\<rparr>
                                 (players game)\<rparr>),
                        gameRounds := (gameRounds s1)(rowId \<mapsto>
                          \<lparr>gr_gameType = ''CRASH'', gr_status = ''ACTIVE'', gr_userId = oderId,
                           gr_wagerAmount = wager,
                           gr_serverSeedHash = serverSeedHash (session game),
                           gr_crashPoint = Some (crashPoint game)\<rparr>)\<rparr>)))"

definition startGame :: "string \<Rightarrow> number \<Rightarrow> server \<Rightarrow> server" where
  "startGame gameId now s =
     (case crashGames s gameId of
        None \<Rightarrow> s
      | Some game \<Rightarrow>
          if status game \<noteq> waiting then s
          else broadcast (crash_start gameId now None)
                 (updateMany (\<lambda>r. gr_serverSeedHash r = serverSeedHash (session game)) ''ACTIVE''
                    (s\<lparr>crashGames := (crashGames s)(gameId \<mapsto>
                         game\<lparr>status := running, startTime := Some now\<rparr>)\<rparr>)))"

text \<open>
  One firing of the interval that \<open>startSyncBroadcasts\<close> installs; \<open>now\<close> and
  \<open>serverTime\<close> are its two readings of the clock. \<open>!game.startTime\<close> holds of
  \<open>null\<close>, 0 and \<open>NaN\<close>.
\<close>

definition syncBroadcast :: "mathlib \<Rightarrow> string \<Rightarrow> number \<Rightarrow> number \<Rightarrow> server \<Rightarrow> server" where
  "syncBroadcast M gameId now serverTime s =
     (case crashGames s gameId of
        None \<Rightarrow> s
      | Some game \<Rightarrow>
          if status game \<noteq> running then s
          else (case startTime game of
                  None \<Rightarrow> s
                | Some st \<Rightarrow>
                    if st = Fin 0 \<or> st = NotANumber then s
                    else let elapsed = dsub now st;
                             multiplier = getMultiplierAtTime M elapsed
                         in broadcast (crash_tick gameId elapsed multiplier serverTime) s))"

text \<open>
  \<open>cashout\<close>. \<open>game.startTime || 0\<close> is 0 when the start time is \<open>null\<close>, 0 or
  \<open>NaN\<close>.
\<close>

definition cashout ::
  "mathlib \<Rightarrow> string \<Rightarrow> string \<Rightarrow> number \<Rightarrow> server \<Rightarrow> (crash_error + number \<times> number) \<times> server" where
  "cashout M gameId oderId now s =
     (case crashGames s gameId of
        None \<Rightarrow> (Inl GameNotFound, s)
      | Some game \<Rightarrow>
          if status game \<noteq> running then (Inl GameNotRunning, s)
          else (case map_of (players game) oderId of
                  None \<Rightarrow> (Inl NotInGame, s)
                | Some player \<Rightarrow>
                    if odercashedOutAt player \<noteq> None then (Inl AlreadyCashedOut, s)
                    else
                      (let elapsed = dsub now (case startTime game of
                                                 None \<Rightarrow> Fin 0
                                               | Some st \<Rightarrow> if st = NotANumber then Fin 0 else st);
                           multiplier = getMultiplierAtTime M elapsed
                       in if dge multiplier (crashPoint game)
                          then (Inl GameAlreadyCrashed, s)
                          else
                            (let payout = calculatePayout (oderwager player) multiplier;
                                 s1 = s\<lparr>crashGames := (crashGames s)(gameId \<mapsto>
                                        game\<lparr>players := AList.update oderId
                                               (player\<lparr>odercashedOutAt := Some multiplier,
                                                  oderpayout := Some payout\<rparr>)
                                               (players game)\<rparr>)\<rparr>;
                                 s2 = snd (creditWinnings oderId (oderwager player) payout s1);
                                 s3 = updateMany (\<lambda>r. gr_userId r = oderId \<and>
                                          gr_serverSeedHash r = serverSeedHash (session game))
                                        ''COMPLETED'' s2;
                                 s4 = broadcast (crash_cashout gameId oderId multiplier payout) s3
                             in (Inr (multiplier, payout), s4)))))"

definition settleRider :: "string \<Rightarrow> server \<Rightarrow> string \<times> PlayerBet \<Rightarrow> server" where
  "settleRider h t p =
     (if odercashedOutAt (snd p) = None
      then updateMany (\<lambda>r. gr_userId r = fst p \<and> gr_serverSeedHash r = h) ''COMPLETED''
             (snd (deductLoss (fst p) (oderwager (snd p)) t))
      else t)"

text \<open>
  \<open>player.odercashedOutAt && player.odercashedOutAt >= 2.0\<close> and
  \<open>player.oderpayout || 0\<close>.
\<close>

definition announceBigWin :: "server \<Rightarrow> string \<times> PlayerBet \<Rightarrow> server" where
  "announceBigWin t p =
     (case odercashedOutAt (snd p) of
        None \<Rightarrow> t
      | Some m \<Rightarrow>
          if dge m (Fin 2)
          then broadcast (big_win (fst p) ''CRASH'' m
                            (case oderpayout (snd p) of
                               None \<Rightarrow> Fin 0
                             | Some x \<Rightarrow> if x = NotANumber then Fin 0 else x)) t
          else t)"

text \<open>
  \<open>crashGame\<close>. \<open>settleRider\<close> and \<open>announceBigWin\<close> are the bodies of its two
  loops over the players. The next round, which it starts at its end, is a
  \<open>createGame\<close> call with a new id and new seeds.
\<close>

definition crashGame :: "string \<Rightarrow> server \<Rightarrow> server" where
  "crashGame gameId s =
     (case crashGames s gameId of
        None \<Rightarrow> s
      | Some game \<Rightarrow>
          if status game \<noteq> running then s
          else
            (let s1 = s\<lparr>crashGames := (crashGames s)(gameId \<mapsto> game\<lparr>status := crashed\<rparr>)\<rparr>;
                 s2 = broadcast (crash_end gameId (crashPoint game) (serverSeed (session game))
                                   (serverSeedHash (session game)) (clientSeed (session game))
                                   (nonce (session game))) s1;
                 s3 = foldl (settleRider (serverSeedHash (session game))) s2 (players game);
                 s4 = s3\<lparr>gameRounds := (\<lambda>id. if id = gameId
                          then map_option (\<lambda>r. r\<lparr>gr_status := ''COMPLETED''\<rparr>) (gameRounds s3 id)
                          else gameRounds s3 id)\<rparr>;
                 s5 = foldl announceBigWin s4 (players game)
             in s5))"

definition deleteGame :: "string \<Rightarrow> server \<Rightarrow> server" where
  "deleteGame gameId s = s\<lparr>crashGames := (crashGames s)(gameId := None)\<rparr>"

section \<open>db/services/game.ts and app/api/games/crash/[gameId]/route.ts\<close>

text \<open>
  \<open>GameService.crashGame(gameRoundId)\<close>, one transaction: it throws \<open>Game not found\<close>
  when there is no such row or the row is not of a crash game, and the update of
  \<open>userStats\<close> throws when the row's user has no statistics row; either rolls the
  transaction back. It asks neither for the status of the row nor for who calls.
\<close>

datatype game_error = GameRowNotFound | RecordNotFound

definition GameService_crashGame :: "string \<Rightarrow> server \<Rightarrow> (game_error + gameRound) \<times> server" where
  "GameService_crashGame gameRoundId s =
     (case gameRounds s gameRoundId of
        None \<Rightarrow> (Inl GameRowNotFound, s)
      | Some game \<Rightarrow>
          if gr_gameType game \<noteq> ''CRASH'' then (Inl GameRowNotFound, s)
          else (case userStatsRows s (gr_userId game) of
                  None \<Rightarrow> (Inl RecordNotFound, s)
                | Some st \<Rightarrow>
                    (let updated = game\<lparr>gr_status := ''COMPLETED''\<rparr>
                     in (Inr updated,
                         s\<lparr>gameRounds := (gameRounds s)(gameRoundId \<mapsto> updated),
                           userStatsRows := (userStatsRows s)(gr_userId game \<mapsto>
                             st\<lparr>totalGamesPlayed := totalGamesPlayed st + 1,
                                totalGamesLost := totalGamesLost st + 1,
                                totalWagered := dadd (totalWagered st) (gr_wagerAmount game),
                                totalLost := dadd (totalLost st) (gr_wagerAmount game),
                                netProfit := dsub (netProfit st) (gr_wagerAmount game)\<rparr>)\<rparr>))))"

text \<open>
  \<open>POST\<close> of the route \<open>/api/games/crash/[gameId]\<close> on a body whose \<open>action\<close> is
  \<open>"crash"\<close>: it calls \<open>GameService.crashGame\<close>, reads the row back and broadcasts a
  \<open>crash_end\<close> message with the crash point of the row. The result is the row in the
  response, or the error of the response with status 500.
\<close>

definition POST_gameId_crash :: "string \<Rightarrow> server \<Rightarrow> (game_error + gameRound option) \<times> server" where
  "POST_gameId_crash gameId s =
     (case GameService_crashGame gameId s of
        (Inl e, s1) \<Rightarrow> (Inl e, s1)
      | (Inr game, s1) \<Rightarrow>
          (let fullGame = gameRounds s1 gameId
           in (Inr fullGame,
               broadcast (route_crash_end gameId
                            (case fullGame of None \<Rightarrow> None | Some r \<Rightarrow> gr_crashPoint r)) s1)))"

text \<open>The calls that reach the crash service and the route, and a run of them.\<close>

datatype crash_op =
    CreateGame string string string
  | PlaceBetOn string string number string
  | StartGame string number
  | SyncBroadcast string number number
  | Cashout string string number
  | CrashGame string
  | DeleteGame string
  | RouteCrash string

fun crash_step :: "crypto \<Rightarrow> mathlib \<Rightarrow> crash_op \<Rightarrow> server \<Rightarrow> server" where
  "crash_step K M (CreateGame gameId fs fc) s = snd (createGame K gameId fs fc s)"
| "crash_step K M (PlaceBetOn gameId oderId wager rowId) s =
     snd (CrashGameService_placeBet gameId oderId wager rowId s)"
| "crash_step K M (StartGame gameId now) s = startGame gameId now s"
| "crash_step K M (SyncBroadcast gameId now serverTime) s = syncBroadcast M gameId now serverTime s"
| "crash_step K M (Cashout gameId oderId now) s = snd (cashout M gameId oderId now s)"
| "crash_step K M (CrashGame gameId) s = crashGame gameId s"
| "crash_step K M (DeleteGame gameId) s = deleteGame gameId s"
| "crash_step K M (RouteCrash gameId) s = snd (POST_gameId_crash gameId s)"

fun crash_run :: "crypto \<Rightarrow> mathlib \<Rightarrow> crash_op list \<Rightarrow> server \<Rightarrow> server" where
  "crash_run K M [] s = s"
| "crash_run K M (x # xs) s = crash_run K M xs (crash_step K M x s)"


text \<open>A state with no row, no round and no broadcast.\<close>

definition empty_server :: server where
  "empty_server =
     \<lparr>wallets = Map.empty, snapshots = [], withdrawals = Map.empty, transactions = [],
      withdrawalCooldowns = Map.empty, gameRounds = Map.empty, userStatsRows = Map.empty,
      crashGames = Map.empty, shootoutGames = Map.empty, broadcasts = []\<rparr>"


text \<open>
  A stand-in for the platform's mathematics, for concrete runs: \<open>Math.exp\<close> is taken
  to return \<open>1.1328125\<close> for every argument, so that the multiplier is \<open>1.13\<close> at
  every positive elapsed time.
\<close>

definition stub_math :: mathlib where
  "stub_math = \<lparr>mathExp = (\<lambda>x. Fin (145 / 128)), mathPow = (\<lambda>a b. Fin 1), mathLog = (\<lambda>x. Fin 0)\<rparr>"

text \<open>
  A run for a concrete round: on a server where player \<open>p\<close> holds 10 and has a
  statistics row, round \<open>g\<close> is created, \<open>p\<close> bets 1 on it, which writes the row
  \<open>r\<close>, and the route is called with action \<open>crash\<close> for \<open>r\<close>. No timer has fired.
\<close>

definition leaked_round :: server where
  "leaked_round =
     crash_run stub_crypto stub_math
       [CreateGame ''g'' ''seed'' ''client'', PlaceBetOn ''g'' ''p'' (Fin 1) ''r'', RouteCrash ''r'']
       ((single_account ''p'' (Fin 10) (Fin 0) (Fin 0))
          \<lparr>userStatsRows := [''p'' \<mapsto> \<lparr>totalGamesPlayed = 0, totalGamesLost = 0,
              totalWagered = Fin 0, totalLost = Fin 0, netProfit = Fin 0\<rparr>]\<rparr>)"


section \<open>shootout-service.ts\<close>

definition SPIN_DURATION_MS :: real where
  "SPIN_DURATION_MS = 2000"

definition HOUSE_RTP :: real where
  "HOUSE_RTP = 9 / 10"


text \<open>
  The two lines of \<open>startSpin\<close> that turn the digest into a number:
  \<open>parseInt(combinedHash.slice(0, 8), 16) / 0xffffffff\<close>.
\<close>

definition normalizedOfHash :: "string \<Rightarrow> jsnum" where
  "normalizedOfHash combinedHash =
     (case parseInt16 (take 8 combinedHash) of
        NaN \<Rightarrow> NaN
      | Num hashInt \<Rightarrow> Num (hashInt / 4294967295))"

definition jsLess :: "jsnum \<Rightarrow> real \<Rightarrow> bool" where
  "jsLess a b = (case a of NaN \<Rightarrow> False | Num x \<Rightarrow> x < b)"

definition orHouse :: "string option \<Rightarrow> string" where
  "orHouse v = (case v of None \<Rightarrow> ''HOUSE'' | Some p \<Rightarrow> if p = [] then ''HOUSE'' else p)"

text \<open>
  \<open>startSpin\<close>, called by the countdown timer. The result is the value of
  \<open>player1Wins\<close> with which the spin timer will call \<open>settleGame\<close>, if the call did
  anything.
\<close>

definition startSpin :: "crypto \<Rightarrow> string \<Rightarrow> server \<Rightarrow> bool option \<times> server" where
  "startSpin K gameId s =
     (case shootoutGames s gameId of
        None \<Rightarrow> (None, s)
      | Some game \<Rightarrow>
          if sg_status game \<noteq> countdown then (None, s)
          else
            (let combinedHash = combineSeeds K (serverSeed (sg_session game))
                                  (clientSeed (sg_session game)) (nonce (sg_session game));
                 normalized = normalizedOfHash combinedHash;
                 player1Wins = (if player2Id game = None then jsLess normalized HOUSE_RTP
                                else jsLess normalized (1 / 2));
                 winner = (if player1Wins then player1Id game else orHouse (player2Id game));
                 s1 = s\<lparr>shootoutGames := (shootoutGames s)(gameId \<mapsto>
                        game\<lparr>sg_status := spinning, winnerId := Some winner\<rparr>)\<rparr>;
                 s2 = broadcast (shootout_spinning gameId SPIN_DURATION_MS) s1
             in (Some player1Wins, s2)))"





text \<open>
  The leading 32 bits of a digest, in the words of the specification: the digest read as a
  256-bit unsigned integer, shifted right by 224 bits.
\<close>

definition leading32 :: "string \<Rightarrow> nat" where
  "leading32 s = hexVal s div 2 ^ 224"

text \<open>
  A state with one shootout round \<open>g\<close> of the given status, a wager of 10 by player
  \<open>p\<close>, who holds 10 with the wager locked, against the given opponent.
\<close>

definition shootout_round :: "shootout_status \<Rightarrow> string option \<Rightarrow> server" where
  "shootout_round st opponent =
     (single_wallet ''p'' 10 10 0)
       \<lparr>shootoutGames := [''g'' \<mapsto>
          \<lparr>player1Id = ''p'', player2Id = opponent, player1Wallet = ''walletP'',
           player2Wallet = opponent, wagerAmount = Fin 10,
           sg_session = \<lparr>serverSeed = ''seed'', serverSeedHash = ''hash'',
                         clientSeed = ''client'', nonce = 0\<rparr>,
           winnerId = None, sg_status = st\<rparr>]\<rparr>"


section \<open>Properties of the rounding\<close>

lemma round_even_int [simp]: "round_even (real_of_int n) = n"
  by (simp add: round_even_def)

lemma round_even_le: "y \<le> real_of_int k \<Longrightarrow> round_even y \<le> k"
proof -
  assume y: "y \<le> real_of_int k"
  then have f: "\<lfloor>y\<rfloor> \<le> k" by (simp add: floor_le_iff)
  show ?thesis
  proof (cases "\<lfloor>y\<rfloor> = k")
    case True
    then have "real_of_int k \<le> y" by (metis of_int_floor_le)
    with y have "y = real_of_int k" by simp
    then show ?thesis by simp
  next
    case False
    with f have "\<lfloor>y\<rfloor> + 1 \<le> k" by simp
    then show ?thesis by (auto simp: round_even_def Let_def)
  qed
qed


lemma round_even_err: "\<bar>real_of_int (round_even y) - y\<bar> \<le> 1 / 2"
proof -
  define d where "d = y - real_of_int \<lfloor>y\<rfloor>"
  have d: "0 \<le> d" "d < 1" unfolding d_def by linarith+
  have y: "y = real_of_int \<lfloor>y\<rfloor> + d" by (simp add: d_def)
  have "round_even y = \<lfloor>y\<rfloor> \<and> d \<le> 1 / 2 \<or> round_even y = \<lfloor>y\<rfloor> + 1 \<and> 1 / 2 \<le> d"
    unfolding round_even_def Let_def d_def [symmetric] by auto
  then show ?thesis
    using d by (subst (2) y) (auto simp: abs_if)
qed

lemma round_even_neg: "round_even (- y) = - round_even y"
proof (cases "y = real_of_int \<lfloor>y\<rfloor>")
  case True
  then obtain n where "y = real_of_int n" by blast
  then have "round_even (- y) = round_even (real_of_int (- n))" by simp
  then show ?thesis using \<open>y = real_of_int n\<close> by (simp del: of_int_minus)
next
  case False
  have fl: "real_of_int \<lfloor>y\<rfloor> \<le> y" "y < real_of_int \<lfloor>y\<rfloor> + 1" by linarith+
  with False have lt: "real_of_int \<lfloor>y\<rfloor> < y" by linarith
  have nf: "\<lfloor>- y\<rfloor> = - \<lfloor>y\<rfloor> - 1"
  proof (rule floor_unique)
    have "real_of_int (- \<lfloor>y\<rfloor> - 1) = - real_of_int \<lfloor>y\<rfloor> - 1" by simp
    then show "real_of_int (- \<lfloor>y\<rfloor> - 1) \<le> - y" using fl(2) by linarith
    have "real_of_int (- \<lfloor>y\<rfloor> - 1) + 1 = - real_of_int \<lfloor>y\<rfloor>" by simp
    then show "- y < real_of_int (- \<lfloor>y\<rfloor> - 1) + 1" using lt by linarith
  qed
  show ?thesis
    using lt fl unfolding round_even_def Let_def nf
    by (auto simp: even_diff_iff)
qed

lemma p2_pos [simp]: "0 < (2::real) powi e"
  by (simp add: zero_less_power_int)

lemma p2_nonneg_int: "0 \<le> j \<Longrightarrow> (2::real) powi j = real_of_int (2 ^ nat j)"
  by (simp add: power_int_def)

lemma p2_split: "(2::real) powi a = 2 powi (a - b) * 2 powi b"
  using power_int_add [of "2::real" "a - b" b] by simp

lemma p2_mono: "a \<le> b \<Longrightarrow> (2::real) powi a \<le> 2 powi b"
  by (rule power_int_increasing) simp_all

lemma p2_less_cancel: "(2::real) powi a < 2 powi b \<Longrightarrow> a < b"
proof (rule ccontr)
  assume lt: "(2::real) powi a < 2 powi b" and "\<not> a < b"
  then have "b \<le> a" by simp
  from p2_mono [OF this] lt show False by simp
qed

lemma log_floor_bounds:
  assumes "x \<noteq> 0"
  shows "2 powi \<lfloor>log 2 \<bar>x\<bar>\<rfloor> \<le> \<bar>x\<bar>" and "\<bar>x\<bar> < 2 powi (\<lfloor>log 2 \<bar>x\<bar>\<rfloor> + 1)"
proof -
  have pw: "2 powr real_of_int k = 2 powi k" for k :: int
    by (rule powr_real_of_int') simp_all
  have "0 < \<bar>x\<bar>" using assms by simp
  from floor_log_eq_powr_iff [OF this, of 2 "\<lfloor>log 2 \<bar>x\<bar>\<rfloor>"]
  have "2 powr real_of_int \<lfloor>log 2 \<bar>x\<bar>\<rfloor> \<le> \<bar>x\<bar> \<and>
        \<bar>x\<bar> < 2 powr real_of_int (\<lfloor>log 2 \<bar>x\<bar>\<rfloor> + 1)"
    by (simp del: of_int_add)
  then show "2 powi \<lfloor>log 2 \<bar>x\<bar>\<rfloor> \<le> \<bar>x\<bar>" and "\<bar>x\<bar> < 2 powi (\<lfloor>log 2 \<bar>x\<bar>\<rfloor> + 1)"
    unfolding pw by simp_all
qed

lemma floor_log_eq:
  assumes "2 powi e \<le> \<bar>x\<bar>" and "\<bar>x\<bar> < 2 powi (e + 1)"
  shows "\<lfloor>log 2 \<bar>x\<bar>\<rfloor> = e"
proof -
  have pw: "2 powr real_of_int k = 2 powi k" for k :: int
    by (rule powr_real_of_int') simp_all
  have pos: "0 < \<bar>x\<bar>" using assms(1) p2_pos [of e] by linarith
  have "\<lfloor>log 2 \<bar>x\<bar>\<rfloor> = e \<longleftrightarrow> 2 powi e \<le> \<bar>x\<bar> \<and> \<bar>x\<bar> < 2 powi (e + 1)"
    using floor_log_eq_powr_iff [OF pos, of 2 e] unfolding pw by simp
  with assms show ?thesis by simp
qed

lemma double_bound: "is_double d \<Longrightarrow> \<bar>d\<bar> < 2 ^ 1024"
proof -
  assume "is_double d"
  then obtain m e :: int where d: "d = real_of_int m * 2 powi e" and m: "\<bar>m\<bar> < 2 ^ 53"
    and e: "- 1074 \<le> e" "e \<le> 971"
    by (auto simp: is_double_def)
  have "\<bar>d\<bar> = real_of_int \<bar>m\<bar> * 2 powi e" by (simp add: d abs_mult)
  also have "\<dots> \<le> real_of_int \<bar>m\<bar> * 2 powi 971"
    using p2_mono [OF e(2)] by (intro mult_left_mono) simp_all
  also have "\<dots> < 2 ^ 53 * 2 powi 971"
  proof -
    have "real_of_int \<bar>m\<bar> < real_of_int (2 ^ 53)" using m by (simp only: of_int_less_iff)
    then show ?thesis by simp
  qed
  also have "\<dots> = 2 ^ 1024" by simp
  finally show ?thesis .
qed

lemma double_multiple:
  assumes "is_double d" and "2 powi p \<le> \<bar>d\<bar>"
  shows "\<exists>k :: int. d = real_of_int k * 2 powi (p - 52)"
proof -
  from assms(1) obtain m e :: int where d: "d = real_of_int m * 2 powi e" and m: "\<bar>m\<bar> < 2 ^ 53"
    by (auto simp: is_double_def)
  have "real_of_int \<bar>m\<bar> < real_of_int (2 ^ 53)" using m by (simp only: of_int_less_iff)
  then have "real_of_int \<bar>m\<bar> * 2 powi e < 2 powi 53 * 2 powi e"
    by simp
  also have "\<dots> = 2 powi (53 + e)" by (simp add: power_int_add)
  finally have "\<bar>d\<bar> < 2 powi (53 + e)" by (simp add: d abs_mult)
  with assms(2) have "(2::real) powi p < 2 powi (53 + e)" by linarith
  then have "p < 53 + e" by (rule p2_less_cancel)
  then have j: "0 \<le> e - (p - 52)" by simp
  have "d = real_of_int m * (2 powi (e - (p - 52)) * 2 powi (p - 52))"
    using p2_split [of e "p - 52"] by (simp add: d)
  also have "\<dots> = real_of_int (m * 2 ^ nat (e - (p - 52))) * 2 powi (p - 52)"
    by (simp add: p2_nonneg_int [OF j])
  finally show ?thesis by blast
qed

lemma double_multiple_min:
  assumes "is_double d"
  shows "\<exists>k :: int. d = real_of_int k * 2 powi (- 1074)"
proof -
  from assms(1) obtain m e :: int where d: "d = real_of_int m * 2 powi e" and e: "- 1074 \<le> e"
    by (auto simp: is_double_def)
  from e have j: "0 \<le> e + 1074" by simp
  have "(2::real) powi e = 2 powi (e + 1074) * 2 powi (- 1074)"
    using power_int_add [of "2::real" "e + 1074" "- 1074"] by simp
  then have "d = real_of_int m * (real_of_int (2 ^ nat (e + 1074)) * 2 powi (- 1074))"
    by (simp only: d p2_nonneg_int [OF j])
  also have "\<dots> = real_of_int (m * 2 ^ nat (e + 1074)) * 2 powi (- 1074)"
    by simp
  finally show ?thesis by blast
qed

lemma rnd_le_double:
  assumes "is_double d" and "x \<le> d"
  shows "dle (rnd x) (Fin d)"
proof (cases "x = 0")
  case True
  with assms show ?thesis by (simp add: rnd_def)
next
  case False
  define E where "E = max \<lfloor>log 2 \<bar>x\<bar>\<rfloor> (- 1022)"
  define u :: real where "u = 2 powi (E - 52)"
  define n where "n = round_even (x / u)"
  have u: "0 < u" by (simp add: u_def)
  have ue: "ulp_exp x = E - 52" by (simp add: ulp_exp_def E_def)
  have y: "real_of_int n * u \<le> d"
  proof (cases "E = - 1022 \<or> 2 powi E \<le> \<bar>d\<bar>")
    case True
    then have "\<exists>k :: int. d = real_of_int k * u"
    proof
      assume "E = - 1022"
      with double_multiple_min [OF assms(1)] show ?thesis by (simp add: u_def)
    next
      assume "2 powi E \<le> \<bar>d\<bar>"
      from double_multiple [OF assms(1) this] show ?thesis by (simp add: u_def)
    qed
    then obtain k :: int where k: "d = real_of_int k * u" by blast
    from assms(2) u have "x / u \<le> real_of_int k" by (simp add: k field_simps)
    then have "n \<le> k" unfolding n_def by (rule round_even_le)
    then have "real_of_int n \<le> real_of_int k" by simp
    then show ?thesis using u by (simp add: k)
  next
    case False
    then have E: "E \<noteq> - 1022" and dlt: "\<bar>d\<bar> < 2 powi E" by simp_all
    from E have EE: "E = \<lfloor>log 2 \<bar>x\<bar>\<rfloor>" by (auto simp: E_def max_def split: if_splits)
    from log_floor_bounds(1) [OF \<open>x \<noteq> 0\<close>] have xl: "2 powi E \<le> \<bar>x\<bar>" by (simp add: EE)
    from dlt assms(2) xl have xn: "x \<le> - (2 powi E)" by (auto simp: abs_if split: if_splits)
    have "2 powi E = 2 powi 52 * u"
      using p2_split [of E "E - 52"] by (simp add: u_def)
    then have pe: "2 powi E = 2 ^ 52 * u" by simp
    from xn u have "x / u \<le> real_of_int (- (2 ^ 52))" by (simp add: pe field_simps)
    then have "n \<le> - (2 ^ 52)" unfolding n_def by (rule round_even_le)
    then have "real_of_int n \<le> real_of_int (- (2 ^ 52))" by (simp only: of_int_le_iff)
    then have "real_of_int n * u \<le> real_of_int (- (2 ^ 52)) * u"
      using u by (intro mult_right_mono) simp_all
    then have "real_of_int n * u \<le> - (2 ^ 52) * u" by simp
    also have "\<dots> = - (2 powi E)" by (simp add: pe)
    also have "\<dots> < d" using dlt by (auto simp: abs_if split: if_splits)
    finally show ?thesis by simp
  qed
  have "d < 2 ^ 1024" using double_bound [OF assms(1)] by (auto simp: abs_if split: if_splits)
  with y show ?thesis
    using False by (auto simp: rnd_def Let_def ue u_def [symmetric] n_def [symmetric])
qed

lemma is_double_neg: "is_double d \<Longrightarrow> is_double (- d)"
proof -
  assume "is_double d"
  then obtain m e :: int where d: "d = real_of_int m * 2 powi e" and m: "\<bar>m\<bar> < 2 ^ 53"
    and e: "- 1074 \<le> e" "e \<le> 971"
    by (auto simp: is_double_def)
  have "- d = real_of_int (- m) * 2 powi e" by (simp add: d)
  moreover have "\<bar>- m\<bar> < 2 ^ 53" using m by simp
  ultimately show ?thesis using e unfolding is_double_def by blast
qed

lemma rnd_neg: "rnd (- x) = dneg (rnd x)"
proof (cases "x = 0")
  case True
  then show ?thesis by (simp add: rnd_def)
next
  case False
  have ue: "ulp_exp (- x) = ulp_exp x" by (simp add: ulp_exp_def)
  have "2 powi ulp_exp x \<noteq> (0::real)" by simp
  then show ?thesis
    using False by (auto simp: rnd_def Let_def ue round_even_neg)
qed

lemma dle_dneg: "dle (dneg a) (dneg b) = dle b a"
  by (cases a; cases b) simp_all

lemma rnd_ge_double:
  assumes "is_double d" and "d \<le> x"
  shows "dle (Fin d) (rnd x)"
proof -
  from assms(2) have "- x \<le> - d" by simp
  from rnd_le_double [OF is_double_neg [OF assms(1)] this]
  have "dle (dneg (rnd x)) (dneg (Fin d))" by (simp add: rnd_neg)
  then show ?thesis by (simp only: dle_dneg)
qed

lemma rnd_double: "is_double x \<Longrightarrow> rnd x = Fin x"
proof -
  assume d: "is_double x"
  from rnd_le_double [OF d order_refl] rnd_ge_double [OF d order_refl]
  show ?thesis by (cases "rnd x") simp_all
qed


lemma is_double_scaled:
  "\<bar>m\<bar> < 2 ^ 53 \<Longrightarrow> - 1074 \<le> e \<Longrightarrow> e \<le> 971 \<Longrightarrow> is_double (real_of_int m * 2 powi e)"
  unfolding is_double_def by blast

lemma is_double_int: "\<bar>k\<bar> < 2 ^ 53 \<Longrightarrow> is_double (real_of_int k)"
  using is_double_scaled [of k 0] by simp


lemma round_even_near: "\<bar>y - real_of_int n\<bar> < 1 / 2 \<Longrightarrow> round_even y = n"
proof -
  assume a: "\<bar>y - real_of_int n\<bar> < 1 / 2"
  from round_even_err [of y] a
  have "\<bar>real_of_int (round_even y) - real_of_int n\<bar> < 1" by linarith
  then have "\<bar>real_of_int (round_even y - n)\<bar> < 1" by simp
  then have "\<bar>round_even y - n\<bar> < 1" by linarith
  then show ?thesis by simp
qed

lemma ulp_exp_eq:
  assumes "2 ^ 52 * 2 powi j \<le> \<bar>x\<bar>" and "\<bar>x\<bar> < 2 ^ 53 * 2 powi j" and "- 1074 \<le> j"
  shows "ulp_exp x = j"
proof -
  have a: "(2::real) powi (j + 52) = 2 ^ 52 * 2 powi j"
    using power_int_add [of "2::real" j 52] by simp
  have b: "(2::real) powi (j + 52 + 1) = 2 ^ 53 * 2 powi j"
    using power_int_add [of "2::real" j 53] by (simp add: add.assoc)
  have "\<lfloor>log 2 \<bar>x\<bar>\<rfloor> = j + 52"
    by (rule floor_log_eq) (use assms a b in simp_all)
  with assms(3) show ?thesis by (simp add: ulp_exp_def)
qed

lemma rnd_eval:
  assumes "2 ^ 52 * 2 powi j \<le> \<bar>x\<bar>" and "\<bar>x\<bar> < 2 ^ 53 * 2 powi j"
    and "- 1074 \<le> j" and "j \<le> 970"
    and "\<bar>x / 2 powi j - real_of_int n\<bar> < 1 / 2"
  shows "rnd x = Fin (real_of_int n * 2 powi j)"
proof -
  have "0 < (2::real) powi j" by simp
  then have "0 < (2::real) ^ 52 * 2 powi j" by (intro mult_pos_pos) simp_all
  with assms(1) have "0 < \<bar>x\<bar>" by linarith
  then have x0: "x \<noteq> 0" by auto
  have ue: "ulp_exp x = j" by (rule ulp_exp_eq [OF assms(1,2,3)])
  have re: "round_even (x / 2 powi j) = n" by (rule round_even_near [OF assms(5)])
  have "\<bar>x\<bar> / 2 powi j < 2 ^ 53" using assms(2) by (simp add: field_simps)
  then have "\<bar>x / 2 powi j\<bar> < 2 ^ 53" by (simp add: abs_divide)
  with assms(5) have "\<bar>real_of_int n\<bar> < 2 ^ 53 + 1" by linarith
  then have "\<bar>real_of_int n\<bar> * 2 powi j < (2 ^ 53 + 1) * 2 powi j" by simp
  also have "\<dots> \<le> (2 ^ 53 + 1) * 2 powi 970"
    using p2_mono [OF assms(4)] by (intro mult_left_mono) simp_all
  also have "\<dots> < 2 ^ 1024" by simp
  finally have "\<bar>real_of_int n * 2 powi j\<bar> < 2 ^ 1024" by (simp add: abs_mult)
  then show ?thesis
    using x0 by (simp add: rnd_def Let_def ue re abs_if split: if_splits)
qed









lemma rnd_int: "\<bar>k\<bar> < 2 ^ 53 \<Longrightarrow> rnd (real_of_int k) = Fin (real_of_int k)"
  by (rule rnd_double [OF is_double_int])

lemma rnd_0 [simp]: "rnd 0 = Fin 0"
  by (simp add: rnd_def)

lemma rnd_1 [simp]: "rnd 1 = Fin 1"
  using rnd_int [of 1] by simp

lemma rnd_numeral [simp]: "(numeral n :: int) < 2 ^ 53 \<Longrightarrow> rnd (numeral n) = Fin (numeral n)"
  using rnd_int [of "numeral n"] by simp

lemma rnd_neg_numeral [simp]:
  "(numeral n :: int) < 2 ^ 53 \<Longrightarrow> rnd (- numeral n) = Fin (- numeral n)"
  using rnd_int [of "- numeral n"] by simp

lemma round_even_tie:
  "y = real_of_int n + 1 / 2 \<Longrightarrow> round_even y = (if even n then n else n + 1)"
proof -
  assume y: "y = real_of_int n + 1 / 2"
  then have "\<lfloor>y\<rfloor> = n" by linarith
  with y show ?thesis by (simp add: round_even_def Let_def)
qed

lemma rnd_eval_tie:
  assumes "2 ^ 52 * 2 powi j \<le> \<bar>x\<bar>" and "\<bar>x\<bar> < 2 ^ 53 * 2 powi j"
    and "- 1074 \<le> j" and "j \<le> 970"
    and "x / 2 powi j = real_of_int n + 1 / 2"
  shows "rnd x = Fin (real_of_int (if even n then n else n + 1) * 2 powi j)"
proof -
  define k where "k = (if even n then n else n + 1)"
  have "0 < (2::real) powi j" by simp
  then have "0 < (2::real) ^ 52 * 2 powi j" by (intro mult_pos_pos) simp_all
  with assms(1) have "0 < \<bar>x\<bar>" by linarith
  then have x0: "x \<noteq> 0" by auto
  have ue: "ulp_exp x = j" by (rule ulp_exp_eq [OF assms(1,2,3)])
  have re: "round_even (x / 2 powi j) = k"
    unfolding k_def by (rule round_even_tie [OF assms(5)])
  have "\<bar>x\<bar> / 2 powi j < 2 ^ 53" using assms(2) by (simp add: field_simps)
  then have "\<bar>x / 2 powi j\<bar> < 2 ^ 53" by (simp add: abs_divide)
  moreover have "\<bar>real_of_int k - x / 2 powi j\<bar> \<le> 1 / 2"
    using assms(5) by (simp add: k_def)
  ultimately have "\<bar>real_of_int k\<bar> < 2 ^ 53 + 1" by linarith
  then have "\<bar>real_of_int k\<bar> * 2 powi j < (2 ^ 53 + 1) * 2 powi j" by simp
  also have "\<dots> \<le> (2 ^ 53 + 1) * 2 powi 970"
    using p2_mono [OF assms(4)] by (intro mult_left_mono) simp_all
  also have "\<dots> < 2 ^ 1024" by simp
  finally have "\<bar>real_of_int k * 2 powi j\<bar> < 2 ^ 1024" by (simp add: abs_mult)
  then show ?thesis
    using x0 unfolding k_def [symmetric]
    by (simp add: rnd_def Let_def ue re abs_if split: if_splits)
qed

section \<open>Roundings of the concrete runs\<close>

lemma roundings:
  "rnd (3 / 10) = Fin (5404319552844595 / 18014398509481984)"
  "rnd (1 / 5) = Fin (3602879701896397 / 18014398509481984)"
  "rnd (1 / 10) = Fin (3602879701896397 / 36028797018963968)"
  "rnd (900719925474099 / 9007199254740992) = Fin (900719925474099 / 9007199254740992)"
  "rnd (1 / 10000000) = Fin (944473296573929 / 9444732965739290427392)"
  "rnd (7036874417766400390625 / 70368744177664) = Fin 100000000"
  "rnd (5404319552844595 / 18014398509481984) = Fin (5404319552844595 / 18014398509481984)"
  "rnd (10555311626649599609375 / 35184372088832) = Fin 300000000"
  "rnd (7205759403792793 / 36028797018963968) = Fin (7205759403792793 / 36028797018963968)"
  "rnd (14073748835532798828125 / 70368744177664) = Fin (6710886399999999 / 33554432)"
  "rnd (199999999 / 1000000000) = Fin (7205759367763997 / 36028797018963968)"
  "rnd (3602879701896397 / 36028797018963968) = Fin (3602879701896397 / 36028797018963968)"
  "rnd (5404319534830197 / 18014398509481984) = Fin (5404319534830197 / 18014398509481984)"
  "rnd (299999999 / 1000000000) = Fin (5404319534830197 / 18014398509481984)"
  "rnd (1 / 100) = Fin (5764607523034235 / 576460752303423488)"
  "rnd (3625 / 32) = Fin (3625 / 32)"
  "rnd (113 / 100) = Fin (1272266894732165 / 1125899906842624)"
  "rnd (7334119312680443486218450668775 / 649037107316853453566312041152512) = Fin (6514006501028685 / 576460752303423488)"
  "rnd (4071254063142928125 / 36028797018963968) = Fin (7951668092076031 / 70368744177664)"
  "rnd (7 / 625) = Fin (6456360425798343 / 576460752303423488)"
  "rnd (23 / 20) = Fin (2589569785738035 / 2251799813685248)"
  "rnd (14927853468287628589852046628225 / 1298074214633706907132624082305024) = Fin (3314649325744685 / 288230376151711744)"
  "rnd (2071655828590428125 / 18014398509481984) = Fin 115"
  "rnd (23 / 2000) = Fin (3314649325744685 / 288230376151711744)"
  "rnd (172938225691027 / 144115188075855872) = Fin (172938225691027 / 144115188075855872)"
  "rnd (1441324818984249747 / 144115188075855872) = Fin (2815087537078613 / 281474976710656)"
  "rnd (9 / 10) = Fin (8106479329266893 / 9007199254740992)"
  "rnd (39 / 40) = Fin (8782019273372467 / 9007199254740992)"
  "rnd (225179981368525 / 9007199254740992) = Fin (225179981368525 / 9007199254740992)"
  "rnd (4503599627370495 / 2251799813685248) = Fin (4503599627370495 / 2251799813685248)"
  "rnd (40532396646334465 / 2251799813685248) = Fin 18"
  "rnd (27 / 1000) = Fin (7782220156096217 / 288230376151711744)"
  "rnd (7782220156096217 / 144115188075855872) = Fin (7782220156096217 / 144115188075855872)"
  "rnd (7009600759022015662808785383483 / 1298074214633706907132624082305024) = Fin (1556444031219243 / 288230376151711744)"
  "rnd (14007996280973191 / 288230376151711744) = Fin (1750999535121649 / 36028797018963968)"
  "rnd (15564440312192435 / 288230376151711744) = Fin (3891110078048109 / 72057594037927936)"
  "rnd (1 / 20) = Fin (3602879701896397 / 72057594037927936)"
  "rnd (3 / 100) = Fin (1080863910568919 / 36028797018963968)"
  "rnd (3602879701896397 / 16) = Fin (3602879701896397 / 16)"
  "rnd (3292675052238163 / 16) = Fin (3292675052238163 / 16)"
  "rnd (68454714336031539 / 72057594037927936) = Fin (4278419646001971 / 4503599627370496)"
  "rnd (3292675052238163 / 68454714336031536) = Fin (6931947478396133 / 144115188075855872)"
  "rnd (99 / 100) = Fin (4458563631096791 / 4503599627370496)"
  "rnd (30906528919850106933220363109203 / 649037107316853453566312041152512) = Fin (1715657000903043 / 36028797018963968)"
  "rnd (34313140018060925 / 36028797018963968) = Fin (8578285004515231 / 9007199254740992)"
  "rnd (9007199254740992 / 8578285004515231) = Fin (4728779608739021 / 4503599627370496)"
  "rnd (118219490218475525 / 1125899906842624) = Fin 105"
  "rnd (21 / 20) = Fin (4728779608739021 / 4503599627370496)"
  "rnd (32425917317067571 / 16) = Fin (8106479329266893 / 4)"
  "rnd (8106479329266893 / 17113678584007884) = Fin (4266568068035207 / 9007199254740992)"
  "rnd (19022765217740672947629812720737 / 40564819207303340847894502572032) = Fin (4223902387354855 / 9007199254740992)"
  "rnd (4783296867386137 / 9007199254740992) = Fin (4783296867386137 / 9007199254740992)"
  "rnd (9007199254740992 / 4783296867386137) = Fin (8480514660063373 / 4503599627370496)"
  "rnd (212012866501584325 / 1125899906842624) = Fin (3312701039087255 / 17592186044416)"
  "rnd (47 / 25) = Fin (2116691824864133 / 1125899906842624)"
  "rnd (1080863910568919 / 8) = Fin (1080863910568919 / 8)"
  "rnd (16933534598913065 / 8) = Fin 2116691824864133"
  "rnd (34947933108395049 / 36028797018963968) = Fin (4368491638549381 / 4503599627370496)"
  "rnd (2116691824864133 / 4368491638549381) = Fin (8728626081913951 / 18014398509481984)"
  "rnd (38917134798264421247210614231241 / 81129638414606681695789005144064) = Fin (8641339821094811 / 18014398509481984)"
  "rnd (9373058688387173 / 18014398509481984) = Fin (2343264672096793 / 4503599627370496)"
  "rnd (4503599627370496 / 2343264672096793) = Fin (8655620444916547 / 4503599627370496)"
  "rnd (216390511122913675 / 1125899906842624) = Fin (1690550868147763 / 8796093022208)"
  "rnd (48 / 25) = Fin (1080863910568919 / 562949953421312)"
proof -
  show "rnd (3 / 10) = Fin (5404319552844595 / 18014398509481984)"
    using rnd_eval [of "- 54" "3 / 10" "5404319552844595"] by simp
  show "rnd (1 / 5) = Fin (3602879701896397 / 18014398509481984)"
    using rnd_eval [of "- 55" "1 / 5" "7205759403792794"] by simp
  show "rnd (1 / 10) = Fin (3602879701896397 / 36028797018963968)"
    using rnd_eval [of "- 56" "1 / 10" "7205759403792794"] by simp
  show "rnd (900719925474099 / 9007199254740992) = Fin (900719925474099 / 9007199254740992)"
    using rnd_eval [of "- 56" "900719925474099 / 9007199254740992" "7205759403792792"] by simp
  show "rnd (1 / 10000000) = Fin (944473296573929 / 9444732965739290427392)"
    using rnd_eval [of "- 76" "1 / 10000000" "7555786372591432"] by simp
  show "rnd (7036874417766400390625 / 70368744177664) = Fin 100000000"
    using rnd_eval [of "- 26" "7036874417766400390625 / 70368744177664" "6710886400000000"] by simp
  show "rnd (5404319552844595 / 18014398509481984) = Fin (5404319552844595 / 18014398509481984)"
    using rnd_eval [of "- 54" "5404319552844595 / 18014398509481984" "5404319552844595"] by simp
  show "rnd (10555311626649599609375 / 35184372088832) = Fin 300000000"
    using rnd_eval [of "- 24" "10555311626649599609375 / 35184372088832" "5033164800000000"] by simp
  show "rnd (7205759403792793 / 36028797018963968) = Fin (7205759403792793 / 36028797018963968)"
    using rnd_eval [of "- 55" "7205759403792793 / 36028797018963968" "7205759403792793"] by simp
  show "rnd (14073748835532798828125 / 70368744177664) = Fin (6710886399999999 / 33554432)"
    using rnd_eval [of "- 25" "14073748835532798828125 / 70368744177664" "6710886399999999"] by simp
  show "rnd (199999999 / 1000000000) = Fin (7205759367763997 / 36028797018963968)"
    using rnd_eval [of "- 55" "199999999 / 1000000000" "7205759367763997"] by simp
  show "rnd (3602879701896397 / 36028797018963968) = Fin (3602879701896397 / 36028797018963968)"
    using rnd_eval [of "- 56" "3602879701896397 / 36028797018963968" "7205759403792794"] by simp
  show "rnd (5404319534830197 / 18014398509481984) = Fin (5404319534830197 / 18014398509481984)"
    using rnd_eval [of "- 54" "5404319534830197 / 18014398509481984" "5404319534830197"] by simp
  show "rnd (299999999 / 1000000000) = Fin (5404319534830197 / 18014398509481984)"
    using rnd_eval [of "- 54" "299999999 / 1000000000" "5404319534830197"] by simp
  show "rnd (1 / 100) = Fin (5764607523034235 / 576460752303423488)"
    using rnd_eval [of "- 59" "1 / 100" "5764607523034235"] by simp
  show "rnd (3625 / 32) = Fin (3625 / 32)"
    using rnd_eval [of "- 46" "3625 / 32" "7971459301376000"] by simp
  show "rnd (113 / 100) = Fin (1272266894732165 / 1125899906842624)"
    using rnd_eval [of "- 52" "113 / 100" "5089067578928660"] by simp
  show "rnd (7334119312680443486218450668775 / 649037107316853453566312041152512) = Fin (6514006501028685 / 576460752303423488)"
    using rnd_eval [of "- 59" "7334119312680443486218450668775 / 649037107316853453566312041152512" "6514006501028685"] by simp
  show "rnd (4071254063142928125 / 36028797018963968) = Fin (7951668092076031 / 70368744177664)"
    using rnd_eval [of "- 46" "4071254063142928125 / 36028797018963968" "7951668092076031"] by simp
  show "rnd (7 / 625) = Fin (6456360425798343 / 576460752303423488)"
    using rnd_eval [of "- 59" "7 / 625" "6456360425798343"] by simp
  show "rnd (23 / 20) = Fin (2589569785738035 / 2251799813685248)"
    using rnd_eval [of "- 52" "23 / 20" "5179139571476070"] by simp
  show "rnd (14927853468287628589852046628225 / 1298074214633706907132624082305024) = Fin (3314649325744685 / 288230376151711744)"
    using rnd_eval [of "- 59" "14927853468287628589852046628225 / 1298074214633706907132624082305024" "6629298651489370"] by simp
  show "rnd (2071655828590428125 / 18014398509481984) = Fin 115"
    using rnd_eval [of "- 46" "2071655828590428125 / 18014398509481984" "8092405580431360"] by simp
  show "rnd (23 / 2000) = Fin (3314649325744685 / 288230376151711744)"
    using rnd_eval [of "- 59" "23 / 2000" "6629298651489370"] by simp
  show "rnd (172938225691027 / 144115188075855872) = Fin (172938225691027 / 144115188075855872)"
    using rnd_eval [of "- 62" "172938225691027 / 144115188075855872" "5534023222112864"] by simp
  show "rnd (1441324818984249747 / 144115188075855872) = Fin (2815087537078613 / 281474976710656)"
    using rnd_eval [of "- 49" "1441324818984249747 / 144115188075855872" "5630175074157226"] by simp
  show "rnd (9 / 10) = Fin (8106479329266893 / 9007199254740992)"
    using rnd_eval [of "- 53" "9 / 10" "8106479329266893"] by simp
  show "rnd (39 / 40) = Fin (8782019273372467 / 9007199254740992)"
    using rnd_eval [of "- 53" "39 / 40" "8782019273372467"] by simp
  show "rnd (225179981368525 / 9007199254740992) = Fin (225179981368525 / 9007199254740992)"
    using rnd_eval [of "- 58" "225179981368525 / 9007199254740992" "7205759403792800"] by simp
  show "rnd (4503599627370495 / 2251799813685248) = Fin (4503599627370495 / 2251799813685248)"
    using rnd_eval [of "- 52" "4503599627370495 / 2251799813685248" "9007199254740990"] by simp
  show "rnd (40532396646334465 / 2251799813685248) = Fin 18"
    using rnd_eval [of "- 48" "40532396646334465 / 2251799813685248" "5066549580791808"] by simp
  show "rnd (27 / 1000) = Fin (7782220156096217 / 288230376151711744)"
    using rnd_eval [of "- 58" "27 / 1000" "7782220156096217"] by simp
  show "rnd (7782220156096217 / 144115188075855872) = Fin (7782220156096217 / 144115188075855872)"
    using rnd_eval [of "- 57" "7782220156096217 / 144115188075855872" "7782220156096217"] by simp
  show "rnd (7009600759022015662808785383483 / 1298074214633706907132624082305024) = Fin (1556444031219243 / 288230376151711744)"
    using rnd_eval [of "- 60" "7009600759022015662808785383483 / 1298074214633706907132624082305024" "6225776124876972"] by simp
  show "rnd (14007996280973191 / 288230376151711744) = Fin (1750999535121649 / 36028797018963968)"
    using rnd_eval_tie [of "- 57" "14007996280973191 / 288230376151711744" "7003998140486595"] by simp
  show "rnd (15564440312192435 / 288230376151711744) = Fin (3891110078048109 / 72057594037927936)"
    using rnd_eval_tie [of "- 57" "15564440312192435 / 288230376151711744" "7782220156096217"] by simp
  show "rnd (1 / 20) = Fin (3602879701896397 / 72057594037927936)"
    using rnd_eval [of "- 57" "1 / 20" "7205759403792794"] by simp
  show "rnd (3 / 100) = Fin (1080863910568919 / 36028797018963968)"
    using rnd_eval [of "- 58" "3 / 100" "8646911284551352"] by simp
  show "rnd (3602879701896397 / 16) = Fin (3602879701896397 / 16)"
    using rnd_eval [of "- 5" "3602879701896397 / 16" "7205759403792794"] by simp
  show "rnd (3292675052238163 / 16) = Fin (3292675052238163 / 16)"
    using rnd_eval [of "- 5" "3292675052238163 / 16" "6585350104476326"] by simp
  show "rnd (68454714336031539 / 72057594037927936) = Fin (4278419646001971 / 4503599627370496)"
    using rnd_eval [of "- 53" "68454714336031539 / 72057594037927936" "8556839292003942"] by simp
  show "rnd (3292675052238163 / 68454714336031536) = Fin (6931947478396133 / 144115188075855872)"
    using rnd_eval [of "- 57" "3292675052238163 / 68454714336031536" "6931947478396133"] by simp
  show "rnd (99 / 100) = Fin (4458563631096791 / 4503599627370496)"
    using rnd_eval [of "- 53" "99 / 100" "8917127262193582"] by simp
  show "rnd (30906528919850106933220363109203 / 649037107316853453566312041152512) = Fin (1715657000903043 / 36028797018963968)"
    using rnd_eval [of "- 57" "30906528919850106933220363109203 / 649037107316853453566312041152512" "6862628003612172"] by simp
  show "rnd (34313140018060925 / 36028797018963968) = Fin (8578285004515231 / 9007199254740992)"
    using rnd_eval [of "- 53" "34313140018060925 / 36028797018963968" "8578285004515231"] by simp
  show "rnd (9007199254740992 / 8578285004515231) = Fin (4728779608739021 / 4503599627370496)"
    using rnd_eval [of "- 52" "9007199254740992 / 8578285004515231" "4728779608739021"] by simp
  show "rnd (118219490218475525 / 1125899906842624) = Fin 105"
    using rnd_eval [of "- 46" "118219490218475525 / 1125899906842624" "7388718138654720"] by simp
  show "rnd (21 / 20) = Fin (4728779608739021 / 4503599627370496)"
    using rnd_eval [of "- 52" "21 / 20" "4728779608739021"] by simp
  show "rnd (32425917317067571 / 16) = Fin (8106479329266893 / 4)"
    using rnd_eval [of "- 2" "32425917317067571 / 16" "8106479329266893"] by simp
  show "rnd (8106479329266893 / 17113678584007884) = Fin (4266568068035207 / 9007199254740992)"
    using rnd_eval [of "- 54" "8106479329266893 / 17113678584007884" "8533136136070414"] by simp
  show "rnd (19022765217740672947629812720737 / 40564819207303340847894502572032) = Fin (4223902387354855 / 9007199254740992)"
    using rnd_eval [of "- 54" "19022765217740672947629812720737 / 40564819207303340847894502572032" "8447804774709710"] by simp
  show "rnd (4783296867386137 / 9007199254740992) = Fin (4783296867386137 / 9007199254740992)"
    using rnd_eval [of "- 53" "4783296867386137 / 9007199254740992" "4783296867386137"] by simp
  show "rnd (9007199254740992 / 4783296867386137) = Fin (8480514660063373 / 4503599627370496)"
    using rnd_eval [of "- 52" "9007199254740992 / 4783296867386137" "8480514660063373"] by simp
  show "rnd (212012866501584325 / 1125899906842624) = Fin (3312701039087255 / 17592186044416)"
    using rnd_eval [of "- 45" "212012866501584325 / 1125899906842624" "6625402078174510"] by simp
  show "rnd (47 / 25) = Fin (2116691824864133 / 1125899906842624)"
    using rnd_eval [of "- 52" "47 / 25" "8466767299456532"] by simp
  show "rnd (1080863910568919 / 8) = Fin (1080863910568919 / 8)"
    using rnd_eval [of "- 6" "1080863910568919 / 8" "8646911284551352"] by simp
  show "rnd (16933534598913065 / 8) = Fin 2116691824864133"
    using rnd_eval_tie [of "- 2" "16933534598913065 / 8" "8466767299456532"] by simp
  show "rnd (34947933108395049 / 36028797018963968) = Fin (4368491638549381 / 4503599627370496)"
    using rnd_eval [of "- 53" "34947933108395049 / 36028797018963968" "8736983277098762"] by simp
  show "rnd (2116691824864133 / 4368491638549381) = Fin (8728626081913951 / 18014398509481984)"
    using rnd_eval [of "- 54" "2116691824864133 / 4368491638549381" "8728626081913951"] by simp
  show "rnd (38917134798264421247210614231241 / 81129638414606681695789005144064) = Fin (8641339821094811 / 18014398509481984)"
    using rnd_eval [of "- 54" "38917134798264421247210614231241 / 81129638414606681695789005144064" "8641339821094811"] by simp
  show "rnd (9373058688387173 / 18014398509481984) = Fin (2343264672096793 / 4503599627370496)"
    using rnd_eval_tie [of "- 53" "9373058688387173 / 18014398509481984" "4686529344193586"] by simp
  show "rnd (4503599627370496 / 2343264672096793) = Fin (8655620444916547 / 4503599627370496)"
    using rnd_eval [of "- 52" "4503599627370496 / 2343264672096793" "8655620444916547"] by simp
  show "rnd (216390511122913675 / 1125899906842624) = Fin (1690550868147763 / 8796093022208)"
    using rnd_eval [of "- 45" "216390511122913675 / 1125899906842624" "6762203472591052"] by simp
  show "rnd (48 / 25) = Fin (1080863910568919 / 562949953421312)"
    using rnd_eval [of "- 52" "48 / 25" "8646911284551352"] by simp
qed

section \<open>Properties of the hexadecimal reading\<close>

lemma hexDigit_bound: "hexDigit c = Some d \<Longrightarrow> d < 16"
  by (auto simp: hexDigit_def Let_def split: if_splits)

lemma hexVal_snoc:
  "hexVal (xs @ [c]) = 16 * hexVal xs + (case hexDigit c of Some d \<Rightarrow> d | None \<Rightarrow> 0)"
  by (simp add: hexVal_def)

lemma hexVal_append: "hexVal (xs @ ys) = hexVal xs * 16 ^ length ys + hexVal ys"
proof (induction ys rule: rev_induct)
  case Nil
  show ?case by (simp add: hexVal_def)
next
  case (snoc y ys)
  have "hexVal (xs @ ys @ [y]) = hexVal ((xs @ ys) @ [y])" by simp
  also have "\<dots> = 16 * hexVal (xs @ ys) + (case hexDigit y of Some d \<Rightarrow> d | None \<Rightarrow> 0)"
    by (rule hexVal_snoc)
  finally show ?case
    using snoc.IH by (simp add: hexVal_snoc algebra_simps)
qed

lemma hexVal_less: "hexVal xs < 16 ^ length xs"
proof (induction xs rule: rev_induct)
  case Nil
  show ?case by (simp add: hexVal_def)
next
  case (snoc x xs)
  have d: "(case hexDigit x of Some d \<Rightarrow> d | None \<Rightarrow> 0) < 16"
    by (auto split: option.splits dest: hexDigit_bound)
  from snoc.IH have "hexVal xs + 1 \<le> 16 ^ length xs" by simp
  then have "16 * (hexVal xs + 1) \<le> 16 * 16 ^ length xs" by (rule mult_le_mono2)
  with d show ?case by (simp add: hexVal_snoc)
qed

lemma hexVal_take: "n \<le> length s \<Longrightarrow> hexVal (take n s) = hexVal s div 16 ^ (length s - n)"
proof -
  assume n: "n \<le> length s"
  have eq: "hexVal s = hexVal (take n s) * 16 ^ (length s - n) + hexVal (drop n s)"
    using hexVal_append [of "take n s" "drop n s"] by simp
  have lt: "hexVal (drop n s) < 16 ^ (length s - n)"
    using hexVal_less [of "drop n s"] by simp
  show ?thesis
    using lt by (subst eq) simp
qed

lemma isHex_plain:
  "isHex c \<Longrightarrow> \<not> isWhite c \<and> c \<noteq> CHR ''-'' \<and> c \<noteq> CHR ''+'' \<and> c \<noteq> CHR ''x'' \<and> c \<noteq> CHR ''X''"
  by (auto simp: isHex_def hexDigit_def isWhite_def Let_def split: if_splits)

lemma parseInt16_hex:
  assumes "list_all isHex s" and "s \<noteq> []"
  shows "parseInt16 s = Num (real (hexVal s))"
proof -
  from assms obtain c cs where s: "s = c # cs" by (cases s) auto
  with assms have c: "isHex c" and cs: "list_all isHex cs" by auto
  note p = isHex_plain [OF c]
  have tw: "takeWhile isHex cs = cs"
    using cs by (simp add: list_all_iff)
  show ?thesis
  proof (cases cs)
    case Nil
    with s p c show ?thesis
      by (simp add: parseInt16_def Let_def)
  next
    case (Cons d ds)
    with cs have "isHex d" by simp
    from isHex_plain [OF this] have d: "d \<noteq> CHR ''x''" "d \<noteq> CHR ''X''" by simp_all
    have "takeWhile isHex (c # d # ds) = c # d # ds"
      using tw Cons c by simp
    with s p d Cons show ?thesis
      by (simp add: parseInt16_def Let_def del: takeWhile.simps takeWhile_eq_all_conv)
  qed
qed












section \<open>Properties of the crash point\<close>






section \<open>Properties of the cash-out\<close>

lemma creditWinnings_games [simp]:
  "crashGames (snd (creditWinnings u wg wn s)) = crashGames s"
  "broadcasts (snd (creditWinnings u wg wn s)) = broadcasts s"
  by (simp_all add: creditWinnings_def Let_def split: option.splits)

lemma deductLoss_games [simp]:
  "crashGames (snd (deductLoss u a s)) = crashGames s"
  "broadcasts (snd (deductLoss u a s)) = broadcasts s"
  by (simp_all add: deductLoss_def Let_def split: option.splits)



lemma broadcast_fields [simp]:
  "crashGames (broadcast e s) = crashGames s"
  "wallets (broadcast e s) = wallets s"
  "broadcasts (broadcast e s) = broadcasts s @ [e]"
  by (simp_all add: broadcast_def)

lemma updateMany_fields [simp]:
  "crashGames (updateMany f st s) = crashGames s"
  "wallets (updateMany f st s) = wallets s"
  "broadcasts (updateMany f st s) = broadcasts s"
  by (simp_all add: updateMany_def)

lemma route_games [simp]: "crashGames (snd (POST_gameId_crash g s)) = crashGames s"
  by (simp add: POST_gameId_crash_def GameService_crashGame_def Let_def split: option.splits)




lemma foldl_settleRider_games [simp]: "crashGames (foldl (settleRider h) s ps) = crashGames s"
  by (induction ps arbitrary: s) (simp_all add: settleRider_def)

lemma foldl_announce_games [simp]: "crashGames (foldl announceBigWin s ps) = crashGames s"
  by (induction ps arbitrary: s) (simp_all add: announceBigWin_def split: option.splits)







section \<open>Properties of the bet lock\<close>

text \<open>
  C5, as amended. \<open>BalanceService.placeBet\<close> fails with the insufficient-balance error
  when the amount exceeds the withdrawable balance, which it computes in double
  arithmetic as \<open>(balance - pendingBalance) - lockedBalance\<close>, and then changes
  nothing. Otherwise its one update adds the amount to \<open>pendingBalance\<close>, the sum
  rounded; \<open>balance\<close> keeps its value.
\<close>

theorem placeBet_locks_pending:
  assumes "wallets s u = Some w"
  shows "withdrawable w = dsub (dsub (balance w) (pendingBalance w)) (lockedBalance w) \<and>
         (dgt amount (withdrawable w) \<longrightarrow>
            BalanceService_placeBet u amount s = (Inl (InsufficientBalance (withdrawable w)), s)) \<and>
         (\<not> dgt amount (withdrawable w) \<longrightarrow>
            BalanceService_placeBet u amount s =
              (Inr (), s\<lparr>wallets := (wallets s)(u \<mapsto>
                            w\<lparr>pendingBalance := dadd (pendingBalance w) amount\<rparr>)\<rparr>) \<and>
            balance (w\<lparr>pendingBalance := dadd (pendingBalance w) amount\<rparr>) = balance w)"
  using assms by (simp add: BalanceService_placeBet_def withdrawable_def Let_def)

theorem placeBet_locks_pending_witness:
  "wallets (single_wallet ''u'' 10 0 0) ''u'' =
     Some \<lparr>balance = Fin 10, pendingBalance = Fin 0, lockedBalance = Fin 0,
           lowestBalance = Fin 10, highestBalance = Fin 10, totalWithdrawn = Fin 0\<rparr> \<and>
   BalanceService_placeBet ''u'' (Fin 3) (single_wallet ''u'' 10 0 0) =
     (Inr (), single_account ''u'' (Fin 10) (Fin 3) (Fin 0)
                \<lparr>wallets := [''u'' \<mapsto> \<lparr>balance = Fin 10, pendingBalance = Fin 3,
                     lockedBalance = Fin 0, lowestBalance = Fin 10, highestBalance = Fin 10,
                     totalWithdrawn = Fin 0\<rparr>]\<rparr>) \<and>
   fst (BalanceService_placeBet ''u'' (lit (1 / 10))
          (single_account ''u'' (lit (3 / 10)) (lit (2 / 10)) (Fin 0))) =
     Inl (InsufficientBalance (Fin (900719925474099 / 9007199254740992)))"
proof -
  let ?w = "\<lparr>balance = Fin 10, pendingBalance = Fin 0, lockedBalance = Fin 0,
             lowestBalance = Fin 10, highestBalance = Fin 10, totalWithdrawn = Fin 0\<rparr>"
  let ?v = "\<lparr>balance = lit (3 / 10), pendingBalance = lit (2 / 10), lockedBalance = Fin 0,
             lowestBalance = lit (3 / 10), highestBalance = lit (3 / 10),
             totalWithdrawn = Fin 0\<rparr>"
  have w: "wallets (single_wallet ''u'' 10 0 0) ''u'' = Some ?w"
    by (simp add: single_wallet_def single_account_def)
  have v: "wallets (single_account ''u'' (lit (3 / 10)) (lit (2 / 10)) (Fin 0)) ''u'' = Some ?v"
    by (simp add: single_account_def)
  have a: "BalanceService_placeBet ''u'' (Fin 3) (single_wallet ''u'' 10 0 0) =
     (Inr (), single_account ''u'' (Fin 10) (Fin 3) (Fin 0)
                \<lparr>wallets := [''u'' \<mapsto> \<lparr>balance = Fin 10, pendingBalance = Fin 3,
                     lockedBalance = Fin 0, lowestBalance = Fin 10, highestBalance = Fin 10,
                     totalWithdrawn = Fin 0\<rparr>]\<rparr>)"
    using placeBet_locks_pending [OF w, of "Fin 3"]
    by (simp add: withdrawable_def dsub_def dgt_def single_wallet_def single_account_def)
  have b: "fst (BalanceService_placeBet ''u'' (lit (1 / 10))
          (single_account ''u'' (lit (3 / 10)) (lit (2 / 10)) (Fin 0))) =
     Inl (InsufficientBalance (Fin (900719925474099 / 9007199254740992)))"
    using placeBet_locks_pending [OF v, of "lit (1 / 10)"]
    by (simp add: withdrawable_def dsub_def dgt_def lit_def roundings)
  from w a b show ?thesis by simp
qed

text \<open>
  C5 as it is written fails: a bet of 3 on an account holding 10 is accepted, 3 is added
  to \<open>pendingBalance\<close>, and \<open>balance\<close> is still 10, not 7.
\<close>

theorem placeBet_balance_counterexample:
  "fst (BalanceService_placeBet ''u'' (Fin 3) (single_wallet ''u'' 10 0 0)) = Inr () \<and>
   map_option balance
     (wallets (snd (BalanceService_placeBet ''u'' (Fin 3) (single_wallet ''u'' 10 0 0))) ''u'') =
     Some (Fin 10) \<and>
   map_option pendingBalance
     (wallets (snd (BalanceService_placeBet ''u'' (Fin 3) (single_wallet ''u'' 10 0 0))) ''u'') =
     Some (Fin 3)"
  by (simp add: single_wallet_def single_account_def BalanceService_placeBet_def Let_def
      dsub_def dgt_def)

section \<open>Properties of the withdrawal reversal\<close>

text \<open>
  C6. The reversal misses the balance it is meant to restore. The user holds \<open>0.3\<close> and
  withdraws \<open>0.1\<close>: \<open>requestWithdrawal\<close> stores
  \<open>sanitizeAmount(0.3 - 0.1) = 0.199999999\<close>, the difference
  \<open>0.19999999999999998\<close> floored at nine decimal places, and when the transfer fails
  \<open>processWithdrawalBackground\<close> adds \<open>0.1\<close> to that. The withdrawal is marked failed
  and the balance is \<open>0.299999999\<close>, not \<open>0.3\<close>.
\<close>

theorem withdrawal_reversal_misses:
  "map_option balance (wallets failed_withdrawal ''u'') = Some (lit (299999999 / 1000000000)) \<and>
   lit (299999999 / 1000000000) = Fin (5404319534830197 / 18014398509481984) \<and>
   lit (3 / 10) = Fin (5404319552844595 / 18014398509481984) \<and>
   map_option pw_status (withdrawals failed_withdrawal ''w1'') = Some failed \<and>
   map_option pw_amount (withdrawals failed_withdrawal ''w1'') = Some (lit (1 / 10))"
  by (simp add: failed_withdrawal_def requestWithdrawal_def processWithdrawalBackground_def
      single_account_def lit_def roundings checkWithdrawalRateLimit_def validateAmount_def
      sanitizeAmount_def fixedDecimals_def MAX_DECIMALS_def MIN_AMOUNT_def MAX_AMOUNT_def
      dgt_def dsub_def Let_def setWithdrawalTimestamp_def broadcast_def)

section \<open>Properties of the shootout settlement\<close>










section \<open>Properties of the crash round's broadcasts\<close>

text \<open>
  C9. The crash point of a round is broadcast before the round has crashed. In the run
  \<open>leaked_round\<close> the round \<open>g\<close> is still waiting for its start, the one message
  broadcast so far is the \<open>crash_end\<close> of the route \<open>/api/games/crash/[gameId]\<close>,
  called for the row of the player's bet, and it carries the crash point of the round.
\<close>

theorem crash_point_broadcast_before_crash:
  "map_option status (crashGames leaked_round ''g'') = Some waiting \<and>
   broadcasts leaked_round =
     [route_crash_end ''r'' (map_option crashPoint (crashGames leaked_round ''g''))]"
  by (simp add: leaked_round_def createGame_def CrashGameService_placeBet_def
      BalanceService_placeBet_def POST_gameId_crash_def GameService_crashGame_def
      createGameSession_def single_account_def broadcast_def dsub_def dgt_def Let_def)

section \<open>Properties of the verification route\<close>

text \<open>
  C10, as amended. The handler never reads a \<open>houseEdge\<close> field: changing it changes
  no response. A body that is not JSON, or is \<open>null\<close>, is answered with status 500; a
  body that lacks one of the five fields (an empty or missing seed or hash, no nonce, a
  crash point that is 0 or missing) is answered with status 400. A body that carries the
  five fields with the types that \<open>verifyGame\<close> declares is answered with
  \<open>verifyGame\<close> at house edge 0.05: the handler passes five arguments and the default
  of the sixth is 0.05. The default of \<open>calculateCrashPoint\<close> is 0.03.
\<close>

theorem verify_route_fixed_house_edge:
  "POST K R (ObjectBody (body\<lparr>body_houseEdge := edge\<rparr>)) = POST K R (ObjectBody body) \<and>
   POST K R NotJson = Json500 ''Failed to verify game'' \<and>
   POST K R NullBody = Json500 ''Failed to verify game'' \<and>
   POST K R NonObject = Json400 ''Missing required fields'' \<and>
   (missingFields body \<longrightarrow> POST K R (ObjectBody body) = Json400 ''Missing required fields'') \<and>
   (\<not> missingFields body \<and>
    body_serverSeed body = Some (JString sSeed) \<and>
    body_serverSeedHash body = Some (JString sSeedHash) \<and>
    body_clientSeed body = Some (JString cSeed) \<and>
    body_nonce body = Some (JNumber (Fin (real_of_int n))) \<and> \<bar>n\<bar> < 10 ^ 21 \<and>
    body_crashPoint body = Some (JNumber cp) \<longrightarrow>
      POST K R (ObjectBody body) =
        Json200 (verifyGame K sSeed sSeedHash cSeed n cp (Some (lit (5 / 100))))) \<and>
   verifyGame K sSeed sSeedHash cSeed n cp None =
     verifyGame K sSeed sSeedHash cSeed n cp (Some (lit (5 / 100))) \<and>
   calculateCrashPoint K sSeed cSeed n None =
     calculateCrashPoint K sSeed cSeed n (Some (lit (3 / 100)))"
proof -
  have a: "POST K R (ObjectBody (body\<lparr>body_houseEdge := edge\<rparr>)) = POST K R (ObjectBody body)"
    by (simp add: POST_def missingFields_def split: option.splits)
  have b: "missingFields body \<longrightarrow> POST K R (ObjectBody body) = Json400 ''Missing required fields''"
    by (simp add: POST_def)
  have d: "verifyGame K sSeed sSeedHash cSeed n cp None =
     verifyGame K sSeed sSeedHash cSeed n cp (Some (lit (5 / 100)))"
    by (simp add: verifyGame_def)
  have "real_of_int \<bar>n\<bar> < real_of_int (10 ^ 21)" if "\<bar>n\<bar> < 10 ^ 21"
    using that by (simp only: of_int_less_iff)
  then have n: "\<bar>real_of_int n\<bar> < 10 ^ 21" if "\<bar>n\<bar> < 10 ^ 21"
    using that by simp
  have c: "\<not> missingFields body \<and>
    body_serverSeed body = Some (JString sSeed) \<and>
    body_serverSeedHash body = Some (JString sSeedHash) \<and>
    body_clientSeed body = Some (JString cSeed) \<and>
    body_nonce body = Some (JNumber (Fin (real_of_int n))) \<and> \<bar>n\<bar> < 10 ^ 21 \<and>
    body_crashPoint body = Some (JNumber cp) \<longrightarrow>
      POST K R (ObjectBody body) =
        Json200 (verifyGame K sSeed sSeedHash cSeed n cp (Some (lit (5 / 100))))"
    using n by (simp add: POST_def d)
  have e: "calculateCrashPoint K sSeed cSeed n None =
     calculateCrashPoint K sSeed cSeed n (Some (lit (3 / 100)))"
    by (simp add: calculateCrashPoint_def)
  from a b c d e show ?thesis by (simp add: POST_def)
qed

theorem verify_route_fixed_house_edge_witness:
  "\<not> missingFields \<lparr>body_serverSeed = Some (JString ''s''),
       body_serverSeedHash = Some (JString ''h''), body_clientSeed = Some (JString ''c''),
       body_nonce = Some (JNumber (Fin 0)), body_crashPoint = Some (JNumber (Fin (3 / 2))),
       body_houseEdge = Some (JNumber (lit (3 / 100)))\<rparr> \<and>
   POST stub_crypto throwing (ObjectBody \<lparr>body_serverSeed = Some (JString ''s''),
       body_serverSeedHash = Some (JString ''h''), body_clientSeed = Some (JString ''c''),
       body_nonce = Some (JNumber (Fin 0)), body_crashPoint = Some (JNumber (Fin (3 / 2))),
       body_houseEdge = Some (JNumber (lit (3 / 100)))\<rparr>) =
     Json200 (verifyGame stub_crypto ''s'' ''h'' ''c'' 0 (Fin (3 / 2)) (Some (lit (5 / 100)))) \<and>
   missingFields \<lparr>body_serverSeed = Some (JString ''s''),
       body_serverSeedHash = Some (JString ''h''), body_clientSeed = Some (JString ''c''),
       body_nonce = None, body_crashPoint = Some (JNumber (Fin (3 / 2))),
       body_houseEdge = None\<rparr> \<and>
   POST stub_crypto throwing (ObjectBody \<lparr>body_serverSeed = Some (JString ''s''),
       body_serverSeedHash = Some (JString ''h''), body_clientSeed = Some (JString ''c''),
       body_nonce = None, body_crashPoint = Some (JNumber (Fin (3 / 2))),
       body_houseEdge = None\<rparr>) = Json400 ''Missing required fields''"
proof -
  let ?body = "\<lparr>body_serverSeed = Some (JString ''s''),
       body_serverSeedHash = Some (JString ''h''), body_clientSeed = Some (JString ''c''),
       body_nonce = Some (JNumber (Fin 0)), body_crashPoint = Some (JNumber (Fin (3 / 2))),
       body_houseEdge = Some (JNumber (lit (3 / 100)))\<rparr>"
  let ?lack = "\<lparr>body_serverSeed = Some (JString ''s''),
       body_serverSeedHash = Some (JString ''h''), body_clientSeed = Some (JString ''c''),
       body_nonce = None, body_crashPoint = Some (JNumber (Fin (3 / 2))),
       body_houseEdge = None\<rparr>"
  have m: "\<not> missingFields ?body"
    by (simp add: missingFields_def)
  have l: "missingFields ?lack"
    by (simp add: missingFields_def)
  have "POST stub_crypto throwing (ObjectBody ?body) =
     Json200 (verifyGame stub_crypto ''s'' ''h'' ''c'' 0 (Fin (3 / 2)) (Some (lit (5 / 100))))"
    using verify_route_fixed_house_edge
            [where K = stub_crypto and R = throwing and body = ?body and sSeed = "''s''"
               and sSeedHash = "''h''" and cSeed = "''c''" and n = 0 and cp = "Fin (3 / 2)"] m
    by simp
  moreover have "POST stub_crypto throwing (ObjectBody ?lack) = Json400 ''Missing required fields''"
    using verify_route_fixed_house_edge
            [where K = stub_crypto and R = throwing and body = ?lack] l
    by simp
  ultimately show ?thesis using m l by simp
qed

text \<open>
  C10 as it is written fails on a request whose claimed crash point is 0: the handler
  answers 400 \<open>Missing required fields\<close>, not the result of \<open>verifyGame\<close>. And a body
  that is not JSON is answered with status 500.
\<close>

theorem verify_route_counterexample:
  "POST stub_crypto throwing (ObjectBody \<lparr>body_serverSeed = Some (JString ''s''),
       body_serverSeedHash = Some (JString ''h''), body_clientSeed = Some (JString ''c''),
       body_nonce = Some (JNumber (Fin 0)), body_crashPoint = Some (JNumber (Fin 0)),
       body_houseEdge = None\<rparr>) = Json400 ''Missing required fields'' \<and>
   POST stub_crypto throwing (ObjectBody \<lparr>body_serverSeed = Some (JString ''s''),
       body_serverSeedHash = Some (JString ''h''), body_clientSeed = Some (JString ''c''),
       body_nonce = Some (JNumber (Fin 0)), body_crashPoint = Some (JNumber (Fin 0)),
       body_houseEdge = None\<rparr>) \<noteq>
     Json200 (verifyGame stub_crypto ''s'' ''h'' ''c'' 0 (Fin 0) (Some (lit (5 / 100)))) \<and>
   POST stub_crypto throwing NotJson = Json500 ''Failed to verify game''"
  by (simp add: POST_def missingFields_def)

section \<open>Properties of the shootout spin\<close>

lemma digest_leading32:
  assumes "isHexDigest hash"
  shows "parseInt16 (take 8 hash) = Num (real (leading32 hash))" and "leading32 hash < 2 ^ 32"
proof -
  from assms have len: "length hash = 64" and hx: "list_all isHex hash"
    by (simp_all add: isHexDigest_def)
  have hx8: "list_all isHex (take 8 hash)"
    using hx by (auto simp: list_all_iff dest: in_set_takeD)
  have ne: "take 8 hash \<noteq> []" using len by auto
  have "hexVal (take 8 hash) = hexVal hash div 16 ^ (length hash - 8)"
    by (rule hexVal_take) (simp add: len)
  also have "(16::nat) ^ (length hash - 8) = 2 ^ 224" by (simp add: len)
  finally have v: "hexVal (take 8 hash) = leading32 hash" by (simp add: leading32_def)
  show "parseInt16 (take 8 hash) = Num (real (leading32 hash))"
    using parseInt16_hex [OF hx8 ne] v by simp
  have "hexVal (take 8 hash) < 16 ^ length (take 8 hash)" by (rule hexVal_less)
  also have "(16::nat) ^ length (take 8 hash) = 2 ^ 32" by (simp add: len)
  finally show "leading32 hash < 2 ^ 32" using v by simp
qed

text \<open>
  C8, as amended. \<open>startSpin\<close> on a round in countdown takes the HMAC digest of the
  round's seeds, reads its leading 32 bits \<open>h\<close> and divides by \<open>0xffffffff\<close>: the
  normalized value \<open>h / (2^32 - 1)\<close> lies between 0 and 1, both included. Player 1
  wins exactly when it is strictly below \<open>p\<close>, the house RTP 0.9 when there is no
  opponent and 0.5 otherwise.
\<close>

theorem startSpin_winner:
  assumes "shootoutGames s g = Some game" and "sg_status game = countdown"
    and "isHexDigest (combineSeeds K (serverSeed (sg_session game)) (clientSeed (sg_session game))
                        (nonce (sg_session game)))"
  shows "let digest = combineSeeds K (serverSeed (sg_session game)) (clientSeed (sg_session game))
                        (nonce (sg_session game));
             x = real (leading32 digest) / (2 ^ 32 - 1);
             p = (if player2Id game = None then HOUSE_RTP else 1 / 2)
         in normalizedOfHash digest = Num x \<and> 0 \<le> x \<and> x \<le> 1 \<and>
            fst (startSpin K g s) = Some (x < p) \<and>
            HOUSE_RTP = 9 / 10 \<and>
            map_option winnerId (shootoutGames (snd (startSpin K g s)) g) =
              Some (Some (if x < p then player1Id game else orHouse (player2Id game)))"
proof -
  define digest where "digest = combineSeeds K (serverSeed (sg_session game))
                        (clientSeed (sg_session game)) (nonce (sg_session game))"
  define x where "x = real (leading32 digest) / (2 ^ 32 - 1)"
  have d: "isHexDigest digest" using assms(3) by (simp add: digest_def)
  have n: "normalizedOfHash digest = Num x"
    using digest_leading32(1) [OF d] by (simp add: normalizedOfHash_def x_def)
  have x0: "0 \<le> x" by (simp add: x_def)
  have "leading32 digest \<le> 2 ^ 32 - 1"
    using digest_leading32(2) [OF d] by simp
  then have "real (leading32 digest) \<le> real (2 ^ 32 - 1)"
    by (simp only: of_nat_le_iff)
  then have x1: "x \<le> 1" by (simp add: x_def)
  have r: "fst (startSpin K g s) =
      Some (x < (if player2Id game = None then HOUSE_RTP else 1 / 2))"
    using assms(1,2) n
    by (simp add: startSpin_def Let_def jsLess_def digest_def [symmetric])
  have w: "map_option winnerId (shootoutGames (snd (startSpin K g s)) g) =
      Some (Some (if x < (if player2Id game = None then HOUSE_RTP else 1 / 2)
                  then player1Id game else orHouse (player2Id game)))"
    using assms(1,2) n
    by (simp add: startSpin_def Let_def jsLess_def broadcast_def digest_def [symmetric])
  show ?thesis
    unfolding Let_def digest_def [symmetric] x_def [symmetric]
    using n x0 x1 r w by (simp add: HOUSE_RTP_def)
qed

theorem startSpin_winner_witness:
  "shootoutGames (shootout_round countdown (Some ''q'')) ''g'' =
     Some \<lparr>player1Id = ''p'', player2Id = Some ''q'', player1Wallet = ''walletP'',
           player2Wallet = Some ''q'', wagerAmount = Fin 10,
           sg_session = \<lparr>serverSeed = ''seed'', serverSeedHash = ''hash'',
                         clientSeed = ''client'', nonce = 0\<rparr>,
           winnerId = None, sg_status = countdown\<rparr> \<and>
   isHexDigest (combineSeeds stub_crypto ''seed'' ''client'' 0) \<and>
   fst (startSpin stub_crypto ''g'' (shootout_round countdown (Some ''q''))) = Some False"
proof -
  let ?game = "\<lparr>player1Id = ''p'', player2Id = Some ''q'', player1Wallet = ''walletP'',
           player2Wallet = Some ''q'', wagerAmount = Fin 10,
           sg_session = \<lparr>serverSeed = ''seed'', serverSeedHash = ''hash'',
                         clientSeed = ''client'', nonce = 0\<rparr>,
           winnerId = None, sg_status = countdown\<rparr>"
  let ?d = "''8000000000000000000000000000000000000000000000000000000000000000''"
  have g: "shootoutGames (shootout_round countdown (Some ''q'')) ''g'' = Some ?game"
    by (simp add: shootout_round_def)
  have st: "sg_status ?game = countdown" by simp
  have cs: "combineSeeds stub_crypto ''seed'' ''client'' 0 = ?d"
    by (simp add: combineSeeds_def stub_crypto_def)
  have d: "isHexDigest (combineSeeds stub_crypto ''seed'' ''client'' 0)"
    unfolding cs by (simp add: isHexDigest_def isHex_def hexDigit_def)
  have d': "isHexDigest (combineSeeds stub_crypto (serverSeed (sg_session ?game))
               (clientSeed (sg_session ?game)) (nonce (sg_session ?game)))"
    using d by simp
  have l: "real (leading32 ?d) = 2 ^ 31"
    by (simp add: leading32_def hexVal_def hexDigit_def)
  from startSpin_winner [OF g st d']
  have "fst (startSpin stub_crypto ''g'' (shootout_round countdown (Some ''q''))) = Some False"
    unfolding Let_def by (simp add: cs l)
  with g d show ?thesis by simp
qed

text \<open>
  C8 as it is written fails in the range it gives: a digest that begins with
  \<open>ffffffff\<close> is normalized to 1, which is not in [0,1).
\<close>

theorem normalized_range_counterexample:
  "normalizedOfHash ''ffffffff00000000000000000000000000000000000000000000000000000000'' = Num 1 \<and>
   isHexDigest ''ffffffff00000000000000000000000000000000000000000000000000000000'' \<and>
   \<not> (1 :: real) < 1"
  by (simp add: normalizedOfHash_def parseInt16_def isHexDigest_def isHex_def isWhite_def
      hexDigit_def hexVal_def)

end
